theory Spec2Isabelle
  imports Main "HOL-Library.Sublist"
begin

section \<open>Python string operations used by the parsers\<close>

text \<open>
  A Python \<open>str\<close> is modelled as a \<open>string\<close>; every \<open>char\<close> stands for one code point
  below 256. The character classes below are those of \<open>str.isspace\<close> and
  \<open>str.splitlines\<close> restricted to that range.
\<close>

definition isspace :: "char \<Rightarrow> bool" where
  "isspace c = (c \<in> set [CHR 0x09, CHR 0x0A, CHR 0x0B, CHR 0x0C, CHR 0x0D,
                          CHR 0x1C, CHR 0x1D, CHR 0x1E, CHR 0x1F, CHR 0x20,
                          CHR 0x85, CHR 0xA0])"

definition strip :: "string \<Rightarrow> string" where
  "strip s = rev (dropWhile isspace (rev (dropWhile isspace s)))"

definition is_linebreak :: "char \<Rightarrow> bool" where
  "is_linebreak c = (c \<in> set [CHR 0x0A, CHR 0x0B, CHR 0x0C, CHR 0x0D,
                               CHR 0x1C, CHR 0x1D, CHR 0x1E, CHR 0x85])"

text \<open>\<open>str.splitlines()\<close>: a carriage return followed by a line feed is one boundary,
  and a final boundary opens no further line.\<close>

fun splitlines_acc :: "string \<Rightarrow> string \<Rightarrow> string list" where
  "splitlines_acc acc [] = (if acc = [] then [] else [rev acc])"
| "splitlines_acc acc [c] = (if is_linebreak c then [rev acc] else [rev (c # acc)])"
| "splitlines_acc acc (c # d # cs) =
     (if c = CHR 0x0D \<and> d = CHR 0x0A then rev acc # splitlines_acc [] cs
      else if is_linebreak c then rev acc # splitlines_acc [] (d # cs)
      else splitlines_acc (c # acc) (d # cs))"

definition splitlines :: "string \<Rightarrow> string list" where
  "splitlines s = splitlines_acc [] s"

text \<open>First occurrence of \<open>sep\<close> in \<open>s\<close>: the text before it and the text after it.\<close>

fun find_sub :: "string \<Rightarrow> string \<Rightarrow> (string \<times> string) option" where
  "find_sub sep [] = (if sep = [] then Some ([], []) else None)"
| "find_sub sep (c # cs) =
     (if prefix sep (c # cs) then Some ([], drop (length sep) (c # cs))
      else map_option (\<lambda>(b, a). (c # b, a)) (find_sub sep cs))"

text \<open>\<open>sub in s\<close> on strings.\<close>

definition contains :: "string \<Rightarrow> string \<Rightarrow> bool" where
  "contains sub s = (find_sub sub s \<noteq> None)"

definition startswith :: "string \<Rightarrow> string \<Rightarrow> bool" where
  "startswith s p = prefix p s"

text \<open>\<open>s.split(sep)\<close> for a non-empty separator (Python raises \<open>ValueError\<close> on an empty
  one; every separator in the program is a non-empty literal).\<close>

function split_py :: "string \<Rightarrow> string \<Rightarrow> string list" where
  "split_py sep s =
     (case find_sub sep s of
        None \<Rightarrow> [s]
      | Some (b, a) \<Rightarrow> if sep = [] then [s] else b # split_py sep a)"
  by pat_completeness auto
termination
proof (relation "measure (\<lambda>(sep, s). length s)")
  show "wf (measure (\<lambda>(sep, s). length s))" by simp
next
  fix sep s :: string and x2 :: "string \<times> string" and b a :: string
  assume f: "find_sub sep s = Some x2" and x: "(b, a) = x2" and ne: "sep \<noteq> []"
  have "find_sub sep s = Some (b, a) \<Longrightarrow> length s = length b + length sep + length a"
  proof (induction s arbitrary: b)
    case Nil
    then show ?case by (simp split: if_splits)
  next
    case (Cons c cs)
    show ?case
    proof (cases "prefix sep (c # cs)")
      case True
      then have "length sep \<le> length (c # cs)" by (rule prefix_length_le)
      with True Cons.prems show ?thesis by auto
    next
      case False
      with Cons.prems obtain b' where "find_sub sep cs = Some (b', a)" and "b = c # b'"
        by auto
      with Cons.IH [of b'] show ?thesis by simp
    qed
  qed
  with f x ne show "((sep, a), (sep, s)) \<in> measure (\<lambda>(sep, s). length s)"
    by (cases sep) auto
qed

declare split_py.simps [simp del]

text \<open>\<open>s.split(sep, 1)\<close>: at most one cut.\<close>

definition split_once :: "string \<Rightarrow> string \<Rightarrow> string list" where
  "split_once sep s = (case find_sub sep s of None \<Rightarrow> [s] | Some (b, a) \<Rightarrow> [b, a])"

section \<open>Exceptions\<close>

text \<open>
  \<open>CalledProcessError\<close> keeps the command, the exit status and the captured standard
  error; every other exception is kept by the text \<open>str(e)\<close> gives.
\<close>

datatype exn =
    CalledProcessError "string list" int string
  | Raised string

text \<open>\<open>xs[i]\<close> for a non-negative index.\<close>

definition index_py :: "'a list \<Rightarrow> nat \<Rightarrow> exn + 'a" where
  "index_py xs i = (if i < length xs then Inr (xs ! i) else Inl (Raised ''list index out of range''))"

section \<open>The Assign-phase parser\<close>

type_synonym assignments = "(string \<times> string list) list"

text \<open>The dictionary \<open>assignments\<close>, in insertion order. Lines 247 to 250.\<close>

fun init_assignments :: "assignments \<Rightarrow> string list \<Rightarrow> assignments" where
  "init_assignments asg [] = asg"
| "init_assignments asg (project # ps) =
     (if project \<notin> set (map fst asg) then init_assignments (asg @ [(project, [])]) ps
      else init_assignments asg ps)"

text \<open>\<open>assignments[k].append(d)\<close> for a key that is present.\<close>

definition dict_append :: "assignments \<Rightarrow> string \<Rightarrow> string \<Rightarrow> assignments" where
  "dict_append asg k d = map (\<lambda>(k', v). if k' = k then (k', v @ [d]) else (k', v)) asg"

text \<open>The loop of lines 255 to 262 over the lines of the standard output.\<close>

fun parse_assignments :: "assignments \<Rightarrow> string option \<Rightarrow> string list \<Rightarrow> exn + assignments" where
  "parse_assignments asg current_project [] = Inr asg"
| "parse_assignments asg current_project (line # lines) =
     (if contains ''Firebase Project'' line \<and> contains '':'' line then
        (case index_py (split_once '':'' line) 1 of
           Inl e \<Rightarrow> Inl e
         | Inr name \<Rightarrow> parse_assignments asg (Some (strip name)) lines)
      else
        (case current_project of
           None \<Rightarrow> parse_assignments asg current_project lines
         | Some project \<Rightarrow>
             if project \<noteq> [] \<and> startswith (strip line) ''-'' then
               (let domain = strip (drop 2 (strip line)) in
                if project \<in> set (map fst asg)
                then parse_assignments (dict_append asg project domain) current_project lines
                else parse_assignments asg current_project lines)
             else parse_assignments asg current_project lines))"

text \<open>\<open>sum(len(domains) for domains in assignments.values())\<close>.\<close>

definition count_assignments :: "assignments \<Rightarrow> int" where
  "count_assignments asg = sum_list (map (\<lambda>(k, v). int (length v)) asg)"

section \<open>The Verify-phase parser\<close>

text \<open>\<open>line.split(" - ")[0].split(tag)[1].strip()\<close>, lines 307 and 310.\<close>

definition tagged_domain :: "string \<Rightarrow> string \<Rightarrow> exn + string" where
  "tagged_domain tag line =
     (case index_py (split_py '' - '' line) 0 of
        Inl e \<Rightarrow> Inl e
      | Inr head_part \<Rightarrow>
          (case index_py (split_py tag head_part) 1 of
             Inl e \<Rightarrow> Inl e
           | Inr d \<Rightarrow> Inr (strip d)))"

text \<open>The loop of lines 300 to 311.\<close>

fun parse_verification ::
  "string list \<Rightarrow> string list \<Rightarrow> string list \<Rightarrow> exn + (string list \<times> string list)" where
  "parse_verification verified_domains failed_domains [] = Inr (verified_domains, failed_domains)"
| "parse_verification verified_domains failed_domains (line # lines) =
     (if contains ''[SUCCESS]'' line \<and> contains '' - '' line then
        (case tagged_domain ''[SUCCESS]'' line of
           Inl e \<Rightarrow> Inl e
         | Inr domain \<Rightarrow> parse_verification (verified_domains @ [domain]) failed_domains lines)
      else if contains ''[FAILED]'' line \<and> contains '' - '' line then
        (case tagged_domain ''[FAILED]'' line of
           Inl e \<Rightarrow> Inl e
         | Inr domain \<Rightarrow> parse_verification verified_domains (failed_domains @ [domain]) lines)
      else parse_verification verified_domains failed_domains lines)"

section \<open>Configuration, Run Summary and manager state\<close>

text \<open>The configuration document: only the keys the program reads. A family's entry
  keeps its optional \<open>project\<close> key.\<close>

record config =
  domainFamilies :: "(string \<times> string option) list option"
  domainAccountId :: "string option"
  organizationDisplayName :: "string option"

definition empty_config :: config where
  "empty_config = \<lparr>domainFamilies = None, domainAccountId = None, organizationDisplayName = None\<rparr>"

text \<open>\<open>self.results\<close>, lines 67 to 76.\<close>

record results =
  organization :: string
  domains_fetched :: int
  domains_categorized :: int
  domains_assigned :: int
  domains_verified :: int
  families_identified :: int
  success :: bool
  errors :: "string list"

text \<open>Which method or external command was entered, in order. The program keeps no such
  list; it is carried along to state which calls a run makes.\<close>

datatype call = Fetch | Categorize | Assign | Verify | Save | Notify | Command string

text \<open>The manager object. \<open>reports\<close> holds the Run Summaries written to the results
  directory so far.\<close>

record manager =
  project_id :: string
  agent_id :: string
  root_dir :: string
  config :: config
  results :: results
  project_mapping :: "(string \<times> string) list"
  calls :: "call list"
  reports :: "results list"

definition default_project_mapping :: "(string \<times> string) list" where
  "default_project_mapping =
     [(''character'', ''api-for-warp-drive''),
      (''command'', ''api-for-warp-drive''),
      (''wing'', ''api-for-warp-drive''),
      (''squadron'', ''api-for-warp-drive''),
      (''brand'', ''coaching2100-com''),
      (''aixtiv'', ''aixtiv-symphony''),
      (''learning'', ''academy2100-com''),
      (''flight'', ''flight-school''),
      (''commerce'', ''giftshop2100-com''),
      (''governance'', ''api-for-warp-drive'')]"

text \<open>\<open>family_info.get("project", "api-for-warp-drive")\<close> for every family of the
  configuration, lines 81 and 82.\<close>

definition mapping_from_config :: "(string \<times> string option) list \<Rightarrow> (string \<times> string) list" where
  "mapping_from_config fams =
     map (\<lambda>(family, project). (family, case project of None \<Rightarrow> ''api-for-warp-drive'' | Some p \<Rightarrow> p)) fams"

text \<open>\<open>DomainAutoscaleManager.__init__\<close>. The last argument is the parsed configuration
  file, \<open>None\<close> when the file does not exist (then \<open>self.config\<close> stays \<open>{}\<close>).\<close>

definition init_manager :: "string \<Rightarrow> string \<Rightarrow> string \<Rightarrow> config option \<Rightarrow> manager" where
  "init_manager project agent root config_file =
     (let cfg = (case config_file of None \<Rightarrow> empty_config | Some c \<Rightarrow> c) in
      \<lparr>project_id = project,
       agent_id = agent,
       root_dir = root,
       config = cfg,
       results = \<lparr>organization = ''Coaching2100'', domains_fetched = 0, domains_categorized = 0,
                  domains_assigned = 0, domains_verified = 0, families_identified = 0,
                  success = False, errors = []\<rparr>,
       project_mapping =
         (case domainFamilies cfg of
            Some fams \<Rightarrow> mapping_from_config fams
          | None \<Rightarrow> default_project_mapping),
       calls = [],
       reports = []\<rparr>)"

section \<open>The outside world\<close>

text \<open>A captured stream of an external command: with \<open>text=True\<close> its bytes are decoded
  once the command has ended, which gives the text or raises a \<open>UnicodeDecodeError\<close> with
  the given text.\<close>

datatype captured = Text string | Undecodable string

text \<open>An external command either cannot be started (\<open>subprocess.run\<close> raises an
  \<open>OSError\<close> with the given text) or exits with a status, a captured standard output and
  a captured standard error.\<close>

datatype proc = NotStarted string | Exited int captured captured

text \<open>
  The value of the \<open>families\<close> key of the organizer's output file. The value of one
  family is a list of domain names, or a value without a length (a number, \<open>null\<close>), kept
  by the text of the \<open>TypeError\<close> that \<open>len\<close> raises on it. The value of the key itself is
  an object from family names to such values, or a value with a length but without
  \<open>.values()\<close> (an array or a string, kept by its length and by the text of the
  \<open>AttributeError\<close>), or a value without a length.
\<close>

datatype family_value = Domains "string list" | Unsized string

datatype families_value =
    FamilyMap "(string \<times> family_value) list"
  | SizedOther nat string
  | UnsizedOther string

text \<open>
  What one run meets outside the program: the outcome of each external command, of the
  library calls that decode JSON, of the file system and of the clock.
  \<^item> \<open>json_loads\<close> is \<open>json.loads\<close> on the listing command's output: the list of domain
    names, or the text of the exception raised;
  \<^item> \<open>staging_write\<close> is the text of the exception raised while the staged domain list is
    written, if any;
  \<^item> \<open>organization_file\<close> is \<open>None\<close> when the organizer's output file does not exist,
    otherwise the value of its \<open>families\<close> key (\<open>{}\<close> when the key is missing) or the text
    of the exception raised while it is read (also when the document is not an object);
  \<^item> \<open>report_write n\<close> is the text of the exception raised by the \<open>n\<close>-th call of the
    report writer (counted from 0), if any;
  \<^item> \<open>called_process_text\<close> is \<open>str(e)\<close> of a \<open>CalledProcessError\<close> with the given
    command and exit status;
  \<^item> \<open>now_stamp\<close> and \<open>now_epoch\<close> are the clock readings of the notifier.
\<close>

record world =
  fetch_proc :: proc
  json_loads :: "string \<Rightarrow> string + string list"
  staging_write :: "string option"
  categorize_proc :: proc
  organization_file :: "(string + families_value) option"
  assign_proc :: proc
  verify_proc :: proc
  notify_proc :: proc
  report_write :: "nat \<Rightarrow> string option"
  called_process_text :: "string list \<Rightarrow> int \<Rightarrow> string"
  now_stamp :: string
  now_epoch :: int

text \<open>\<open>str(e)\<close>.\<close>

definition str_exn :: "world \<Rightarrow> exn \<Rightarrow> string" where
  "str_exn w e =
     (case e of
        CalledProcessError command returncode err \<Rightarrow> called_process_text w command returncode
      | Raised msg \<Rightarrow> msg)"

text \<open>\<open>str.lower()\<close> on code points below 256.\<close>

definition lower_char :: "char \<Rightarrow> char" where
  "lower_char c =
     (let n = (of_char c :: nat) in
      if (65 \<le> n \<and> n \<le> 90) \<or> (192 \<le> n \<and> n \<le> 222 \<and> n \<noteq> 215) then char_of (n + 32) else c)"

definition lower :: "string \<Rightarrow> string" where
  "lower s = map lower_char s"

text \<open>Decimal rendering of an integer inside an f-string.\<close>

function show_nat :: "nat \<Rightarrow> string" where
  "show_nat n = (if n < 10 then [char_of (48 + n)] else show_nat (n div 10) @ [char_of (48 + n mod 10)])"
  by pat_completeness auto
termination
  by (relation "measure id") auto

definition show_int :: "int \<Rightarrow> string" where
  "show_int i = (if i < 0 then ''-'' @ show_nat (nat (- i)) else show_nat (nat i))"

text \<open>A path below \<open>self.root_dir\<close>.\<close>

definition path_under :: "string \<Rightarrow> string \<Rightarrow> string" where
  "path_under root rel = root @ ''/'' @ rel"

section \<open>The command executor\<close>

definition add_error :: "string \<Rightarrow> manager \<Rightarrow> manager" where
  "add_error msg m = m\<lparr>results := (results m)\<lparr>errors := errors (results m) @ [msg]\<rparr>\<rparr>"

definition log_call :: "call \<Rightarrow> manager \<Rightarrow> manager" where
  "log_call c m = m\<lparr>calls := calls m @ [c]\<rparr>"

text \<open>\<open>run_command\<close>, lines 107 to 125; \<open>p\<close> is what the command does in this run. The
  value returned on success is the standard output, the only field the callers read.
  \<open>subprocess.run\<close> decodes the standard output, then the standard error, and only then
  looks at the exit status (\<open>check=True\<close>); an exception of the decoding is not a
  \<open>CalledProcessError\<close> and passes the handler of line 121 by.\<close>

definition run_command :: "proc \<Rightarrow> string list \<Rightarrow> string \<Rightarrow> manager \<Rightarrow> manager \<times> (exn + string)" where
  "run_command p command description m =
     (let m1 = log_call (Command description) m in
      case p of
        NotStarted msg \<Rightarrow> (m1, Inl (Raised msg))
      | Exited returncode captured_out captured_err \<Rightarrow>
          (case captured_out of
             Undecodable msg \<Rightarrow> (m1, Inl (Raised msg))
           | Text out \<Rightarrow>
               (case captured_err of
                  Undecodable msg \<Rightarrow> (m1, Inl (Raised msg))
                | Text err \<Rightarrow>
                    if returncode = 0 then (m1, Inr out)
                    else (add_error (''Command failed: '' @ err) m1,
                          Inl (CalledProcessError command returncode err)))))"

section \<open>The four phases\<close>

text \<open>Each phase returns its Phase Result; the time stamps and the duration are left
  out. A key the program sets only on some paths is an optional field.\<close>

record fetch_results =
  fetch_success :: bool
  domains_count :: int
  domains :: "string list option"
  domains_file :: "string option"
  fetch_error :: "string option"

definition fetch_command :: "string list" where
  "fetch_command = [''node'', ''bin/aixtiv.js'', ''domain:godaddy:list'', ''--refresh'',
                    ''--organization'', ''Coaching2100'', ''--json'']"

text \<open>\<open>fetch_domains\<close>, lines 127 to 182. The count is written to the Run Summary before
  the staged list is written to disk.\<close>

definition fetch_domains :: "world \<Rightarrow> manager \<Rightarrow> manager \<times> fetch_results" where
  "fetch_domains w m =
     (let r0 = \<lparr>fetch_success = False, domains_count = 0, domains = None,
                domains_file = None, fetch_error = None\<rparr>;
          failed = (\<lambda>e m' r. (add_error (''Domain fetch failed: '' @ str_exn w e) m',
                               r\<lparr>fetch_error := Some (str_exn w e)\<rparr>))
      in case run_command (fetch_proc w) fetch_command
                ''Fetching domains from GoDaddy API for Coaching2100'' (log_call Fetch m) of
           (m1, Inl e) \<Rightarrow> failed e m1 r0
         | (m1, Inr out) \<Rightarrow>
             (case json_loads w out of
                Inl msg \<Rightarrow> failed (Raised msg) m1 r0
              | Inr loaded \<Rightarrow>
                  (let domains_data =
                         (case domainAccountId (config m1) of
                            Some account_id \<Rightarrow>
                              filter (\<lambda>domain. contains (lower account_id) (lower domain)) loaded
                          | None \<Rightarrow> loaded);
                       r1 = r0\<lparr>domains := Some domains_data,
                               domains_count := int (length domains_data)\<rparr>;
                       m2 = m1\<lparr>results := (results m1)\<lparr>domains_fetched := int (length domains_data)\<rparr>\<rparr>
                   in case staging_write w of
                        Some msg \<Rightarrow> failed (Raised msg) m2 r1
                      | None \<Rightarrow>
                          (m2, r1\<lparr>domains_file := Some (path_under (root_dir m2) ''temp/coaching2100-domains.json''),
                                  fetch_success := True\<rparr>))))"

record categorize_results =
  categorize_success :: bool
  families_count :: int
  families :: "families_value option"
  categorize_error :: "string option"

definition categorize_command :: "string \<Rightarrow> string list" where
  "categorize_command root = [''node'', ''bin/aixtiv.js'', ''domain:godaddy:organize'', ''--dry-run'',
                              ''--output'', path_under root ''temp/domain-organization.json'']"

text \<open>\<open>sum(len(domains) for domains in families.values())\<close>, line 211: the first value
  without a length raises.\<close>

fun sum_lengths :: "(string \<times> family_value) list \<Rightarrow> string + int" where
  "sum_lengths [] = Inr 0"
| "sum_lengths ((family, Unsized msg) # rest) = Inl msg"
| "sum_lengths ((family, Domains ds) # rest) =
     (case sum_lengths rest of Inl msg \<Rightarrow> Inl msg | Inr n \<Rightarrow> Inr (int (length ds) + n))"

text \<open>\<open>categorize_domains\<close>, lines 184 to 227. Line 208 stores the families, line 209 their
  number, line 210 writes the number to the Run Summary, and only then line 211 sums the
  lengths; each of lines 209 and 211 may raise.\<close>

definition categorize_domains :: "world \<Rightarrow> manager \<Rightarrow> manager \<times> categorize_results" where
  "categorize_domains w m =
     (let r0 = \<lparr>categorize_success = False, families_count = 0, families = None,
                categorize_error = None\<rparr>;
          failed = (\<lambda>e m' r. (add_error (''Domain categorization failed: '' @ str_exn w e) m',
                               r\<lparr>categorize_error := Some (str_exn w e)\<rparr>))
      in case run_command (categorize_proc w) (categorize_command (root_dir m))
                ''Categorizing domains into families'' (log_call Categorize m) of
           (m1, Inl e) \<Rightarrow> failed e m1 r0
         | (m1, Inr out) \<Rightarrow>
             (case organization_file w of
                None \<Rightarrow>
                  failed (Raised (''Domain organization file not found: ''
                                  @ path_under (root_dir m1) ''temp/domain-organization.json'')) m1 r0
              | Some (Inl msg) \<Rightarrow> failed (Raised msg) m1 r0
              | Some (Inr fam) \<Rightarrow>
                  (let r1 = r0\<lparr>families := Some fam\<rparr>;
                       counted = (\<lambda>n. (m1\<lparr>results := (results m1)\<lparr>families_identified := n\<rparr>\<rparr>,
                                         r1\<lparr>families_count := n\<rparr>))
                   in case fam of
                        UnsizedOther msg \<Rightarrow> failed (Raised msg) m1 r1
                      | SizedOther n msg \<Rightarrow>
                          (case counted (int n) of (m2, r2) \<Rightarrow> failed (Raised msg) m2 r2)
                      | FamilyMap fams \<Rightarrow>
                          (case counted (int (length fams)) of (m2, r2) \<Rightarrow>
                             (case sum_lengths fams of
                                Inl msg \<Rightarrow> failed (Raised msg) m2 r2
                              | Inr categorized \<Rightarrow>
                                  (m2\<lparr>results := (results m2)\<lparr>domains_categorized := categorized\<rparr>\<rparr>,
                                   r2\<lparr>categorize_success := True\<rparr>))))))"

record assign_results =
  assign_success :: bool
  assignments_count :: int
  assignments :: "assignments option"
  assign_error :: "string option"

definition assign_command :: "string list" where
  "assign_command = [''node'', ''bin/aixtiv.js'', ''domain:godaddy:organize'']"

text \<open>\<open>assign_to_projects\<close>, lines 229 to 280.\<close>

definition assign_to_projects :: "world \<Rightarrow> manager \<Rightarrow> manager \<times> assign_results" where
  "assign_to_projects w m =
     (let r0 = \<lparr>assign_success = False, assignments_count = 0, assignments = None,
                assign_error = None\<rparr>;
          failed = (\<lambda>e m' r. (add_error (''Domain assignment failed: '' @ str_exn w e) m',
                               r\<lparr>assign_error := Some (str_exn w e)\<rparr>))
      in case run_command (assign_proc w) assign_command
                ''Assigning domains to Firebase projects'' (log_call Assign m) of
           (m1, Inl e) \<Rightarrow> failed e m1 r0
         | (m1, Inr out) \<Rightarrow>
             (case parse_assignments (init_assignments [] (map snd (project_mapping m1))) None
                     (splitlines out) of
                Inl e \<Rightarrow> failed e m1 r0
              | Inr asg \<Rightarrow>
                  (m1\<lparr>results := (results m1)\<lparr>domains_assigned := count_assignments asg\<rparr>\<rparr>,
                   r0\<lparr>assignments := Some asg, assignments_count := count_assignments asg,
                      assign_success := True\<rparr>)))"

record verify_results =
  verify_success :: bool
  verified_count :: int
  failed_count :: "int option"
  verified_domains :: "string list option"
  failed_domains :: "string list option"
  verify_error :: "string option"

definition verify_command :: "string list" where
  "verify_command = [''node'', ''scripts/autoscale-verify-firebase-domains.js'']"

text \<open>\<open>verify_domains\<close>, lines 282 to 332.\<close>

definition verify_domains :: "world \<Rightarrow> manager \<Rightarrow> manager \<times> verify_results" where
  "verify_domains w m =
     (let r0 = \<lparr>verify_success = False, verified_count = 0, failed_count = None,
                verified_domains = None, failed_domains = None, verify_error = None\<rparr>;
          failed = (\<lambda>e m' r. (add_error (''Domain verification failed: '' @ str_exn w e) m',
                               r\<lparr>verify_error := Some (str_exn w e)\<rparr>))
      in case run_command (verify_proc w) verify_command
                ''Verifying domains with Firebase'' (log_call Verify m) of
           (m1, Inl e) \<Rightarrow> failed e m1 r0
         | (m1, Inr out) \<Rightarrow>
             (case parse_verification [] [] (splitlines out) of
                Inl e \<Rightarrow> failed e m1 r0
              | Inr (verified, failed_list) \<Rightarrow>
                  (m1\<lparr>results := (results m1)\<lparr>domains_verified := int (length verified)\<rparr>\<rparr>,
                   r0\<lparr>verified_domains := Some verified, failed_domains := Some failed_list,
                      verified_count := int (length verified),
                      failed_count := Some (int (length failed_list)),
                      verify_success := True\<rparr>)))"

section \<open>Report writer, notifier and pipeline controller\<close>

text \<open>\<open>_save_results\<close>, lines 377 to 388: creating the directory, opening the file or
  serialising may raise; otherwise the current Run Summary is written. Which call of the
  writer this is, and so which outcome the world gives it, is read off the list of calls.\<close>

definition save_results :: "world \<Rightarrow> manager \<Rightarrow> manager \<times> (exn + unit)" where
  "save_results w m =
     (let m1 = log_call Save m in
      case report_write w (count_list (calls m) Save) of
        Some msg \<Rightarrow> (m1, Inl (Raised msg))
      | None \<Rightarrow> (m1\<lparr>reports := reports m1 @ [results m1]\<rparr>, Inr ()))"

definition notify_command :: "world \<Rightarrow> manager \<Rightarrow> string list" where
  "notify_command w m =
     [''gcloud'', ''firestore'', ''documents'', ''create'',
      ''projects/'' @ project_id m @ ''/databases/(default)/documents/domain-autoscale/'' @ now_stamp w,
      ''--fields=status='' @ (if success (results m) then ''SUCCESS'' else ''FAILURE'')
        @ '',timestamp='' @ show_int (now_epoch w)
        @ '',agent='' @ agent_id m
        @ '',verified='' @ show_int (domains_verified (results m))]"

text \<open>\<open>_notify_completion\<close>, lines 390 to 407: every exception is caught.\<close>

definition notify_completion :: "world \<Rightarrow> manager \<Rightarrow> manager" where
  "notify_completion w m =
     (case run_command (notify_proc w) (notify_command w m)
             ''Updating Firestore with domain autoscale results'' (log_call Notify m) of
        (m1, Inl e) \<Rightarrow> add_error (''Failed to update Firestore: '' @ str_exn w e) m1
      | (m1, Inr out) \<Rightarrow> m1)"

text \<open>The gated phases of lines 340 to 352; no phase lets an exception escape.\<close>

definition run_phases :: "world \<Rightarrow> manager \<Rightarrow> manager" where
  "run_phases w m =
     (case fetch_domains w m of (m1, fetch_res) \<Rightarrow>
        if fetch_success fetch_res then
          (case categorize_domains w m1 of (m2, categorize_res) \<Rightarrow>
             if categorize_success categorize_res then
               (case assign_to_projects w m2 of (m3, assign_res) \<Rightarrow>
                  if assign_success assign_res then fst (verify_domains w m3) else m3)
             else m2)
        else m1)"

definition set_success :: "bool \<Rightarrow> manager \<Rightarrow> manager" where
  "set_success b m = m\<lparr>results := (results m)\<lparr>success := b\<rparr>\<rparr>"

text \<open>\<open>run_full_pipeline\<close>, lines 334 to 375. The result is the Run Summary, or the
  exception that leaves the method when the report writer raises inside the handler.\<close>

definition run_full_pipeline :: "world \<Rightarrow> manager \<Rightarrow> manager \<times> (exn + results)" where
  "run_full_pipeline w m =
     (case save_results w (run_phases w m) of
        (m1, Inr u) \<Rightarrow>
          (let m2 = set_success (errors (results m1) = []) m1;
               m3 = notify_completion w m2
           in (m3, Inr (results m3)))
      | (m1, Inl e) \<Rightarrow>
          (let m2 = set_success False (add_error (''Pipeline execution failed: '' @ str_exn w e) m1)
           in case save_results w m2 of
                (m3, Inr u) \<Rightarrow> (m3, Inr (results m3))
              | (m3, Inl e') \<Rightarrow> (m3, Inl e')))"

section \<open>Entry point\<close>

datatype phase = PhaseFetch | PhaseCategorize | PhaseAssign | PhaseVerify | PhaseFull

record args =
  arg_project_id :: string
  arg_agent_id :: string
  arg_phase :: phase

text \<open>\<open>main\<close>, lines 409 to 441: the value is the exit status of the process. An
  exception that leaves \<open>run_full_pipeline\<close> is not caught, and the interpreter exits
  with status 1.\<close>

definition main :: "world \<Rightarrow> string \<Rightarrow> config option \<Rightarrow> args \<Rightarrow> int" where
  "main w root config_file a =
     (let manager = init_manager (arg_project_id a) (arg_agent_id a) root config_file in
      case (case arg_phase a of
              PhaseFetch \<Rightarrow> Inr (fetch_success (snd (fetch_domains w manager)))
            | PhaseCategorize \<Rightarrow> Inr (categorize_success (snd (categorize_domains w manager)))
            | PhaseAssign \<Rightarrow> Inr (assign_success (snd (assign_to_projects w manager)))
            | PhaseVerify \<Rightarrow> Inr (verify_success (snd (verify_domains w manager)))
            | PhaseFull \<Rightarrow> map_sum id success (snd (run_full_pipeline w manager))) of
        Inl (e :: exn) \<Rightarrow> 1
      | Inr ok \<Rightarrow> if ok then 0 else 1)"

section \<open>Reference descriptions of the two parsers\<close>

text \<open>The recognisers of lines 257 to 260, named.\<close>

definition is_project_header :: "string \<Rightarrow> bool" where
  "is_project_header line = (contains ''Firebase Project'' line \<and> contains '':'' line)"

definition header_name :: "string \<Rightarrow> string" where
  "header_name line = (case find_sub '':'' line of None \<Rightarrow> [] | Some (b, a) \<Rightarrow> strip a)"

definition is_domain_line :: "string \<Rightarrow> bool" where
  "is_domain_line line = startswith (strip line) ''-''"

definition line_domain :: "string \<Rightarrow> string" where
  "line_domain line = strip (drop 2 (strip line))"

text \<open>
  The specification's reading of the Assign-phase output: every domain line is paired
  with the name of the most recently seen project header. Lines before the first header,
  and lines under a header with an empty name, are paired with nothing.
\<close>

fun spec_attributions :: "string option \<Rightarrow> string list \<Rightarrow> (string \<times> string) list" where
  "spec_attributions current [] = []"
| "spec_attributions current (line # lines) =
     (if is_project_header line then spec_attributions (Some (header_name line)) lines
      else if current \<noteq> None \<and> current \<noteq> Some [] \<and> is_domain_line line
           then (the current, line_domain line) # spec_attributions current lines
      else spec_attributions current lines)"

text \<open>
  The specification's reading of a tagged verification line: the domain is the text after
  the first occurrence of the tag, up to the next occurrence of the tag or else up to the
  first delimiter \<open>" - "\<close>, without surrounding white space. A line without the delimiter,
  or whose tag does not occur before the first delimiter, has none.
\<close>

definition spec_domain :: "string \<Rightarrow> string \<Rightarrow> string option" where
  "spec_domain tag line =
     (case find_sub '' - '' line of
        None \<Rightarrow> None
      | Some (head_part, rest) \<Rightarrow>
          (case find_sub tag head_part of
             None \<Rightarrow> None
           | Some (b, after) \<Rightarrow>
               (case find_sub tag after of
                  None \<Rightarrow> Some (strip after)
                | Some (d, a) \<Rightarrow> Some (strip d))))"

definition is_success_line :: "string \<Rightarrow> bool" where
  "is_success_line line = (contains ''[SUCCESS]'' line \<and> contains '' - '' line)"

definition is_failed_line :: "string \<Rightarrow> bool" where
  "is_failed_line line =
     (\<not> is_success_line line \<and> contains ''[FAILED]'' line \<and> contains '' - '' line)"

section \<open>Sample runs\<close>

text \<open>A world in which every command exits with status 0 and prints nothing of
  interest, every file operation works, and the listing is empty.\<close>

definition calm_world :: world where
  "calm_world =
     \<lparr>fetch_proc = Exited 0 (Text ''[]'') (Text []),
      json_loads = (\<lambda>out. Inr []),
      staging_write = None,
      categorize_proc = Exited 0 (Text []) (Text []),
      organization_file = Some (Inr (FamilyMap [])),
      assign_proc = Exited 0 (Text []) (Text []),
      verify_proc = Exited 0 (Text []) (Text []),
      notify_proc = Exited 0 (Text []) (Text []),
      report_write = (\<lambda>n. None),
      called_process_text = (\<lambda>command returncode. ''Command returned non-zero exit status''),
      now_stamp = ''20250101000000'',
      now_epoch = 1735689600\<rparr>"

text \<open>The calm world, except that the status push exits with status 1.\<close>

definition notify_failing_world :: world where
  "notify_failing_world = calm_world\<lparr>notify_proc := Exited 1 (Text []) (Text ''permission denied'')\<rparr>"

text \<open>The calm world, except that the first call of the report writer raises.\<close>

definition report_failing_world :: world where
  "report_failing_world =
     calm_world\<lparr>report_write := (\<lambda>n. if n = 0 then Some ''No space left on device'' else None)\<rparr>"

text \<open>The calm world, except that the command of every phase exits with status 1.\<close>

definition failing_world :: world where
  "failing_world =
     calm_world\<lparr>fetch_proc := Exited 1 (Text []) (Text ''boom''), categorize_proc := Exited 1 (Text []) (Text ''boom''),
                assign_proc := Exited 1 (Text []) (Text ''boom''), verify_proc := Exited 1 (Text []) (Text ''boom'')\<rparr>"

text \<open>The calm world, except that the listing command exits with status 1 and a standard
  error that does not decode.\<close>

definition undecodable_stderr_world :: world where
  "undecodable_stderr_world =
     calm_world\<lparr>fetch_proc :=
       Exited 1 (Text []) (Undecodable ''utf-8 codec cannot decode byte 0xff in position 0'')\<rparr>"

definition fresh_manager :: manager where
  "fresh_manager = init_manager ''api-for-warp-drive'' ''DR_CLAUDE_AUTOMATION'' ''/repo'' None"

definition full_args :: args where
  "full_args = \<lparr>arg_project_id = ''api-for-warp-drive'', arg_agent_id = ''DR_CLAUDE_AUTOMATION'',
                arg_phase = PhaseFull\<rparr>"

definition sample_assign_lines :: "string list" where
  "sample_assign_lines =
     [''Firebase Project: proj-a'', ''- x.com'', ''- y.com'', ''Firebase Project: proj-b'', ''- z.com'']"

definition sample_verify_lines :: "string list" where
  "sample_verify_lines = [''[SUCCESS] x.com - ok'', ''[FAILED] y.com - timeout'']"

text \<open>Appending every pair of a list of attributions to the dictionary; a pair whose
  project is not a key changes nothing.\<close>

definition attach :: "assignments \<Rightarrow> (string \<times> string) list \<Rightarrow> assignments" where
  "attach asg ps = foldl (\<lambda>a (p, d). dict_append a p d) asg ps"

text \<open>The specification's sample output of the organizer, with two domain lines put
  before the first header, and a manager whose configuration maps two families to the
  projects of the sample.\<close>

definition sample_assign_output :: string where
  "sample_assign_output =
     ''Firebase Project: proj-a\<newline>- x.com\<newline>- y.com\<newline>Firebase Project: proj-b\<newline>- z.com\<newline>''"


text \<open>An output with a line, between two domain lines, that mentions \<open>Firebase Project\<close>
  after a colon.\<close>

definition stray_header_output :: string where
  "stray_header_output =
     ''Firebase Project: proj-a\<newline>- x.com\<newline>note: Firebase Project list continues\<newline>- y.com\<newline>''"

definition stray_header_lines :: "string list" where
  "stray_header_lines =
     [''Firebase Project: proj-a'', ''- x.com'', ''note: Firebase Project list continues'',
      ''- y.com'']"

definition stray_header_world :: world where
  "stray_header_world = calm_world\<lparr>assign_proc := Exited 0 (Text stray_header_output) (Text [])\<rparr>"

definition sample_assign_world :: world where
  "sample_assign_world = calm_world\<lparr>assign_proc := Exited 0 (Text sample_assign_output) (Text [])\<rparr>"


definition two_project_manager :: manager where
  "two_project_manager =
     init_manager ''api-for-warp-drive'' ''DR_CLAUDE_AUTOMATION'' ''/repo''
       (Some (empty_config\<lparr>domainFamilies :=
                Some [(''alpha'', Some ''proj-a''), (''beta'', Some ''proj-b'')]\<rparr>))"

text \<open>The specification's sample output of the verification script, and an output whose
  only line carries both tags before the delimiter.\<close>

definition sample_verify_output :: string where
  "sample_verify_output = ''[SUCCESS] x.com - ok\<newline>[FAILED] y.com - timeout\<newline>''"

definition sample_verify_world :: world where
  "sample_verify_world = calm_world\<lparr>verify_proc := Exited 0 (Text sample_verify_output) (Text [])\<rparr>"

definition mixed_verify_line :: string where
  "mixed_verify_line = ''[FAILED] y.com [SUCCESS] - retried''"

definition mixed_verify_world :: world where
  "mixed_verify_world = calm_world\<lparr>verify_proc := Exited 0 (Text mixed_verify_line) (Text [])\<rparr>"

text \<open>An output whose only line carries its tag after the delimiter.\<close>

definition late_tag_line :: string where
  "late_tag_line = ''x.com - [SUCCESS]''"

definition late_tag_world :: world where
  "late_tag_world = calm_world\<lparr>verify_proc := Exited 0 (Text late_tag_line) (Text [])\<rparr>"

section \<open>What each component leaves unchanged\<close>

lemmas phase_defs = run_command_def add_error_def log_call_def Let_def

lemma fetch_domains_frame:
  assumes "fetch_domains w m = (m', r)"
  shows "calls m' = calls m @ [Fetch, Command ''Fetching domains from GoDaddy API for Coaching2100'']"
    and "reports m' = reports m"
    and "project_mapping m' = project_mapping m"
    and "root_dir m' = root_dir m"
    and "success (results m') = success (results m)"
    and "domains_categorized (results m') = domains_categorized (results m)"
    and "families_identified (results m') = families_identified (results m)"
    and "domains_assigned (results m') = domains_assigned (results m)"
    and "domains_verified (results m') = domains_verified (results m)"
    and "\<exists>extra. errors (results m') = errors (results m) @ extra \<and> (fetch_success r \<longleftrightarrow> extra = [])"
  using assms
  by (auto simp: fetch_domains_def phase_defs split: proc.splits captured.splits sum.splits option.splits if_splits)

lemma categorize_domains_frame:
  assumes "categorize_domains w m = (m', r)"
  shows "calls m' = calls m @ [Categorize, Command ''Categorizing domains into families'']"
    and "reports m' = reports m"
    and "project_mapping m' = project_mapping m"
    and "root_dir m' = root_dir m"
    and "success (results m') = success (results m)"
    and "domains_fetched (results m') = domains_fetched (results m)"
    and "domains_assigned (results m') = domains_assigned (results m)"
    and "domains_verified (results m') = domains_verified (results m)"
    and "\<exists>extra. errors (results m') = errors (results m) @ extra \<and> (categorize_success r \<longleftrightarrow> extra = [])"
  using assms
  by (auto simp: categorize_domains_def phase_defs
      split: proc.splits captured.splits sum.splits option.splits if_splits families_value.splits)

lemma assign_to_projects_frame:
  assumes "assign_to_projects w m = (m', r)"
  shows "calls m' = calls m @ [Assign, Command ''Assigning domains to Firebase projects'']"
    and "reports m' = reports m"
    and "project_mapping m' = project_mapping m"
    and "root_dir m' = root_dir m"
    and "success (results m') = success (results m)"
    and "domains_fetched (results m') = domains_fetched (results m)"
    and "domains_categorized (results m') = domains_categorized (results m)"
    and "families_identified (results m') = families_identified (results m)"
    and "domains_verified (results m') = domains_verified (results m)"
    and "\<exists>extra. errors (results m') = errors (results m) @ extra \<and> (assign_success r \<longleftrightarrow> extra = [])"
  using assms
  by (auto simp: assign_to_projects_def phase_defs split: proc.splits captured.splits sum.splits option.splits if_splits)

lemma verify_domains_frame:
  assumes "verify_domains w m = (m', r)"
  shows "calls m' = calls m @ [Verify, Command ''Verifying domains with Firebase'']"
    and "reports m' = reports m"
    and "project_mapping m' = project_mapping m"
    and "root_dir m' = root_dir m"
    and "success (results m') = success (results m)"
    and "domains_fetched (results m') = domains_fetched (results m)"
    and "domains_categorized (results m') = domains_categorized (results m)"
    and "families_identified (results m') = families_identified (results m)"
    and "domains_assigned (results m') = domains_assigned (results m)"
    and "\<exists>extra. errors (results m') = errors (results m) @ extra \<and> (verify_success r \<longleftrightarrow> extra = [])"
  using assms
  by (auto simp: verify_domains_def phase_defs
      split: proc.splits captured.splits sum.splits option.splits if_splits prod.splits)

lemma save_results_frame:
  assumes "save_results w m = (m', r)"
  shows "calls m' = calls m @ [Save]"
    and "results m' = results m"
    and "project_mapping m' = project_mapping m"
    and "r = (case report_write w (count_list (calls m) Save) of
                Some msg \<Rightarrow> Inl (Raised msg) | None \<Rightarrow> Inr ())"
  using assms
  by (auto simp: save_results_def phase_defs split: option.splits)

lemma notify_completion_frame:
  shows "calls (notify_completion w m) =
           calls m @ [Notify, Command ''Updating Firestore with domain autoscale results'']"
    and "success (results (notify_completion w m)) = success (results m)"
    and "domains_fetched (results (notify_completion w m)) = domains_fetched (results m)"
    and "domains_categorized (results (notify_completion w m)) = domains_categorized (results m)"
    and "families_identified (results (notify_completion w m)) = families_identified (results m)"
    and "domains_assigned (results (notify_completion w m)) = domains_assigned (results m)"
    and "domains_verified (results (notify_completion w m)) = domains_verified (results m)"
    and "reports (notify_completion w m) = reports m"
  by (auto simp: notify_completion_def phase_defs split: proc.splits captured.splits sum.splits option.splits if_splits)

lemma notify_completion_errors:
  "errors (results (notify_completion w m)) =
     errors (results m) @
       (case notify_proc w of
          NotStarted msg \<Rightarrow> [''Failed to update Firestore: '' @ msg]
        | Exited rc captured_out captured_err \<Rightarrow>
            (case captured_out of
               Undecodable msg \<Rightarrow> [''Failed to update Firestore: '' @ msg]
             | Text out \<Rightarrow>
                 (case captured_err of
                    Undecodable msg \<Rightarrow> [''Failed to update Firestore: '' @ msg]
                  | Text err \<Rightarrow>
                      if rc = 0 then []
                      else [''Command failed: '' @ err,
                            ''Failed to update Firestore: ''
                              @ called_process_text w (notify_command w m) rc])))"
  by (auto simp: notify_completion_def phase_defs str_exn_def notify_command_def
      split: proc.splits captured.splits sum.splits option.splits if_splits)

lemma set_success_frame:
  "calls (set_success b m) = calls m"
  "success (results (set_success b m)) = b"
  "errors (results (set_success b m)) = errors (results m)"
  "domains_categorized (results (set_success b m)) = domains_categorized (results m)"
  "families_identified (results (set_success b m)) = families_identified (results m)"
  "domains_assigned (results (set_success b m)) = domains_assigned (results m)"
  "domains_verified (results (set_success b m)) = domains_verified (results m)"
  by (simp_all add: set_success_def)

lemma add_error_frame:
  "calls (add_error e m) = calls m"
  "success (results (add_error e m)) = success (results m)"
  "errors (results (add_error e m)) = errors (results m) @ [e]"
  "domains_categorized (results (add_error e m)) = domains_categorized (results m)"
  "families_identified (results (add_error e m)) = families_identified (results m)"
  "domains_assigned (results (add_error e m)) = domains_assigned (results m)"
  "domains_verified (results (add_error e m)) = domains_verified (results m)"
  by (simp_all add: add_error_def)

text \<open>The two ways a run of the controller can go once the phases are over.\<close>

lemma run_full_pipeline_cases:
  assumes "run_full_pipeline w m = (m', out)"
  obtains
    (written) m1 where "save_results w (run_phases w m) = (m1, Inr ())"
      and "m' = notify_completion w (set_success (errors (results m1) = []) m1)"
      and "out = Inr (results m')"
  | (failed) m1 e m3 r where "save_results w (run_phases w m) = (m1, Inl e)"
      and "save_results w (set_success False
             (add_error (''Pipeline execution failed: '' @ str_exn w e) m1)) = (m3, r)"
      and "m' = m3"
      and "out = (case r of Inl e' \<Rightarrow> Inl e' | Inr u \<Rightarrow> Inr (results m3))"
  using assms
  by (auto simp: run_full_pipeline_def Let_def split: prod.splits sum.splits)

lemma run_phases_fetch_failed:
  "fetch_domains w m = (m1, r) \<Longrightarrow> \<not> fetch_success r \<Longrightarrow> run_phases w m = m1"
  by (simp add: run_phases_def)

lemma run_phases_calls:
  "\<exists>new. calls (run_phases w m) = calls m @ new \<and> Save \<notin> set new \<and> Notify \<notin> set new"
proof -
  obtain m1 r1 where f: "fetch_domains w m = (m1, r1)" by (cases "fetch_domains w m")
  obtain m2 r2 where c: "categorize_domains w m1 = (m2, r2)" by (cases "categorize_domains w m1")
  obtain m3 r3 where a: "assign_to_projects w m2 = (m3, r3)" by (cases "assign_to_projects w m2")
  obtain m4 r4 where v: "verify_domains w m3 = (m4, r4)" by (cases "verify_domains w m3")
  show ?thesis
    using fetch_domains_frame(1) [OF f] categorize_domains_frame(1) [OF c]
      assign_to_projects_frame(1) [OF a] verify_domains_frame(1) [OF v]
    by (simp add: run_phases_def f c a v)
qed

lemma run_phases_count_Save:
  "count_list (calls (run_phases w m)) Save = count_list (calls m) Save"
  using run_phases_calls [of w m] by (auto simp: count_list_0_iff)

lemma run_phases_count_Notify:
  "count_list (calls (run_phases w m)) Notify = count_list (calls m) Notify"
  using run_phases_calls [of w m] by (auto simp: count_list_0_iff)

text \<open>Nothing but the notifier reads the outcome of the status push.\<close>

lemma str_exn_ignores_notifier: "str_exn (w\<lparr>notify_proc := p\<rparr>) = str_exn w"
  by (rule ext) (simp add: str_exn_def split: exn.splits)

lemma phases_ignore_notifier:
  "fetch_domains (w\<lparr>notify_proc := p\<rparr>) m = fetch_domains w m"
  "categorize_domains (w\<lparr>notify_proc := p\<rparr>) m = categorize_domains w m"
  "assign_to_projects (w\<lparr>notify_proc := p\<rparr>) m = assign_to_projects w m"
  "verify_domains (w\<lparr>notify_proc := p\<rparr>) m = verify_domains w m"
  "save_results (w\<lparr>notify_proc := p\<rparr>) m = save_results w m"
  by (simp_all add: fetch_domains_def categorize_domains_def assign_to_projects_def
        verify_domains_def save_results_def Let_def str_exn_ignores_notifier
      cong: prod.case_cong sum.case_cong option.case_cong if_cong families_value.case_cong)

lemma run_phases_ignore_notifier: "run_phases (w\<lparr>notify_proc := p\<rparr>) m = run_phases w m"
  by (simp add: run_phases_def phases_ignore_notifier cong: prod.case_cong if_cong)

lemma pipeline_success_ignores_notifier:
  "map_sum id success (snd (run_full_pipeline (w\<lparr>notify_proc := p\<rparr>) m)) =
   map_sum id success (snd (run_full_pipeline w m))"
  by (simp add: run_full_pipeline_def run_phases_ignore_notifier phases_ignore_notifier Let_def
        notify_completion_frame set_success_frame str_exn_ignores_notifier
      split: prod.splits sum.splits)

text \<open>Unfolding of a whole run on a concrete world.\<close>

lemmas sample_defs = run_full_pipeline_def run_phases_def fetch_domains_def categorize_domains_def
  assign_to_projects_def verify_domains_def save_results_def notify_completion_def
  set_success_def run_command_def add_error_def log_call_def str_exn_def Let_def
  fresh_manager_def init_manager_def empty_config_def calm_world_def
  notify_failing_world_def report_failing_world_def failing_world_def
  default_project_mapping_def splitlines_def count_assignments_def

section \<open>The Run Summary: success and errors\<close>

text \<open>
  Claim C2, as stated: for every run of the full pipeline, \<open>errors\<close> is non-empty if and
  only if \<open>success\<close> is false. This fails: when every phase and the report write succeed
  and the status push then exits with status 1, the Run Summary ends with
  \<open>success = True\<close> and two entries in \<open>errors\<close>.
\<close>

theorem success_true_with_errors_after_notifier_failure:
  "\<not> (errors (results (fst (run_full_pipeline notify_failing_world fresh_manager))) \<noteq> []
        \<longleftrightarrow> \<not> success (results (fst (run_full_pipeline notify_failing_world fresh_manager))))"
  by (simp add: sample_defs)

text \<open>
  Claim C2, amended: in every run of the full pipeline, \<open>success = False\<close> implies that
  \<open>errors\<close> is non-empty; \<open>success\<close> is true exactly when no error had been recorded by
  the phases and the report was written, that is, before the notifier runs; in every run
  in which the notifier records nothing, that is, whose status push is started, has
  output that decodes as text and exits with status 0, \<open>errors\<close> is non-empty if and only
  if \<open>success\<close> is false; and every other run that ends with \<open>success = True\<close> ends with
  a non-empty \<open>errors\<close>.
\<close>

theorem success_false_iff_errors_unless_notifier_fails:
  assumes "run_full_pipeline w m = (m', out)"
  shows "(\<not> success (results m') \<longrightarrow> errors (results m') \<noteq> []) \<and>
         (success (results m') \<longleftrightarrow>
            errors (results (run_phases w m)) = [] \<and>
            report_write w (count_list (calls m) Save) = None) \<and>
         ((\<exists>out' err. notify_proc w = Exited 0 (Text out') (Text err)) \<longrightarrow>
            (errors (results m') \<noteq> [] \<longleftrightarrow> \<not> success (results m'))) \<and>
         (success (results m') \<and> (\<forall>out' err. notify_proc w \<noteq> Exited 0 (Text out') (Text err)) \<longrightarrow>
            errors (results m') \<noteq> [])"
  using assms
proof (cases rule: run_full_pipeline_cases)
  case (written m1)
  note s = save_results_frame [OF written(1)]
  from s(4) have "report_write w (count_list (calls m) Save) = None"
    by (simp add: run_phases_count_Save split: option.splits)
  with written(2) s(2) show ?thesis
    by (auto simp: notify_completion_frame notify_completion_errors set_success_frame
        split: proc.splits captured.splits)
next
  case (failed m1 e m3 r)
  note s = save_results_frame [OF failed(1)]
  from s(4) have "report_write w (count_list (calls m) Save) \<noteq> None"
    by (simp add: run_phases_count_Save split: option.splits)
  moreover from failed(2)
  have "results m3 = results (set_success False
          (add_error (''Pipeline execution failed: '' @ str_exn w e) m1))"
    by (rule save_results_frame)
  ultimately show ?thesis
    using failed(3) by (simp add: set_success_frame add_error_frame)
qed

theorem success_false_iff_errors_unless_notifier_fails_witness:
  "notify_proc failing_world = Exited 0 (Text []) (Text []) \<and>
   \<not> success (results (fst (run_full_pipeline failing_world fresh_manager))) \<and>
   errors (results (fst (run_full_pipeline failing_world fresh_manager))) \<noteq> [] \<and>
   notify_proc notify_failing_world = Exited 1 (Text []) (Text ''permission denied'') \<and>
   success (results (fst (run_full_pipeline notify_failing_world fresh_manager))) \<and>
   errors (results (fst (run_full_pipeline notify_failing_world fresh_manager))) \<noteq> []"
proof -
  have n: "notify_proc failing_world = Exited 0 (Text []) (Text [])"
    by (simp add: failing_world_def calm_world_def)
  have s: "\<not> success (results (fst (run_full_pipeline failing_world fresh_manager)))"
    by (simp add: sample_defs)
  have n': "notify_proc notify_failing_world = Exited 1 (Text []) (Text ''permission denied'')"
    by (simp add: notify_failing_world_def)
  have s': "success (results (fst (run_full_pipeline notify_failing_world fresh_manager)))"
    by (simp add: sample_defs)
  from success_false_iff_errors_unless_notifier_fails
         [of failing_world fresh_manager "fst (run_full_pipeline failing_world fresh_manager)"
             "snd (run_full_pipeline failing_world fresh_manager)"]
       success_false_iff_errors_unless_notifier_fails
         [of notify_failing_world fresh_manager
             "fst (run_full_pipeline notify_failing_world fresh_manager)"
             "snd (run_full_pipeline notify_failing_world fresh_manager)"] n s n' s'
  show ?thesis by simp
qed

section \<open>Gating on the Fetch phase\<close>

text \<open>
  Claim C3: in every full-pipeline run in which the Fetch phase fails, Categorize, Assign
  and Verify are never invoked (the only calls the run adds are Fetch with its command,
  the report writer, and the notifier with its command), and the counts
  \<open>domains_categorized\<close>, \<open>families_identified\<close>, \<open>domains_assigned\<close> and
  \<open>domains_verified\<close> keep the value they had, which is 0 for a manager as constructed.
\<close>

theorem fetch_failure_skips_later_phases:
  assumes "fetch_domains w m = (m1, r)" and "\<not> fetch_success r"
    and "run_full_pipeline w m = (m', out)"
  shows "(\<exists>new. calls m' = calls m @ new \<and>
            set new \<subseteq> {Fetch, Command ''Fetching domains from GoDaddy API for Coaching2100'',
                         Save, Notify, Command ''Updating Firestore with domain autoscale results''}) \<and>
         domains_categorized (results m') = domains_categorized (results m) \<and>
         families_identified (results m') = families_identified (results m) \<and>
         domains_assigned (results m') = domains_assigned (results m) \<and>
         domains_verified (results m') = domains_verified (results m) \<and>
         (m = init_manager project agent root config_file \<longrightarrow>
            domains_categorized (results m') = 0 \<and> families_identified (results m') = 0 \<and>
            domains_assigned (results m') = 0 \<and> domains_verified (results m') = 0)"
proof -
  have rp: "run_phases w m = m1" using assms(1,2) by (rule run_phases_fetch_failed)
  note f = fetch_domains_frame [OF assms(1)]
  have unchanged: "(\<exists>new. calls m' = calls m @ new \<and>
            set new \<subseteq> {Fetch, Command ''Fetching domains from GoDaddy API for Coaching2100'',
                         Save, Notify, Command ''Updating Firestore with domain autoscale results''}) \<and>
         domains_categorized (results m') = domains_categorized (results m) \<and>
         families_identified (results m') = families_identified (results m) \<and>
         domains_assigned (results m') = domains_assigned (results m) \<and>
         domains_verified (results m') = domains_verified (results m)"
    using assms(3)
  proof (cases rule: run_full_pipeline_cases)
    case (written s1)
    note s = save_results_frame [OF written(1) [unfolded rp]]
    show ?thesis
      by (simp add: written(2) notify_completion_frame set_success_frame s f)
  next
    case (failed s1 e s3 r')
    note s = save_results_frame [OF failed(1) [unfolded rp]]
    note s' = save_results_frame [OF failed(2)]
    show ?thesis
      by (simp add: failed(3) s' set_success_frame add_error_frame s f)
  qed
  moreover have "domains_categorized (results (init_manager project agent root config_file)) = 0"
    "families_identified (results (init_manager project agent root config_file)) = 0"
    "domains_assigned (results (init_manager project agent root config_file)) = 0"
    "domains_verified (results (init_manager project agent root config_file)) = 0"
    by (simp_all add: init_manager_def Let_def)
  ultimately show ?thesis by simp
qed

theorem fetch_failure_skips_later_phases_witness:
  "\<not> fetch_success (snd (fetch_domains failing_world fresh_manager)) \<and>
   calls (fst (run_full_pipeline failing_world fresh_manager)) =
     [Fetch, Command ''Fetching domains from GoDaddy API for Coaching2100'', Save, Notify,
      Command ''Updating Firestore with domain autoscale results''] \<and>
   domains_categorized (results (fst (run_full_pipeline failing_world fresh_manager))) = 0 \<and>
   families_identified (results (fst (run_full_pipeline failing_world fresh_manager))) = 0 \<and>
   domains_assigned (results (fst (run_full_pipeline failing_world fresh_manager))) = 0 \<and>
   domains_verified (results (fst (run_full_pipeline failing_world fresh_manager))) = 0"
proof -
  have f: "\<not> fetch_success (snd (fetch_domains failing_world fresh_manager))"
    by (simp add: sample_defs)
  have c: "calls (fst (run_full_pipeline failing_world fresh_manager)) =
     [Fetch, Command ''Fetching domains from GoDaddy API for Coaching2100'', Save, Notify,
      Command ''Updating Firestore with domain autoscale results'']"
    by (simp add: sample_defs)
  have "fetch_domains failing_world fresh_manager =
          (fst (fetch_domains failing_world fresh_manager), snd (fetch_domains failing_world fresh_manager))"
       "run_full_pipeline failing_world fresh_manager =
          (fst (run_full_pipeline failing_world fresh_manager), snd (run_full_pipeline failing_world fresh_manager))"
       "fresh_manager = init_manager ''api-for-warp-drive'' ''DR_CLAUDE_AUTOMATION'' ''/repo'' None"
    by (simp_all add: fresh_manager_def)
  from fetch_failure_skips_later_phases [OF this(1) f this(2),
         of "''api-for-warp-drive''" "''DR_CLAUDE_AUTOMATION''" "''/repo''" None] this(3) f c
  show ?thesis by simp
qed

section \<open>A failing report write\<close>

text \<open>
  Claim C4, as stated: if persisting the Run Summary fails, the failure is appended to
  \<open>errors\<close> and the report writer is not invoked a second time within the same run. The
  second half fails: the handler of \<open>run_full_pipeline\<close> calls the writer again, so a run
  whose first write raises enters the writer twice.
\<close>

theorem report_writer_called_twice_after_failure:
  "report_write report_failing_world 0 = Some ''No space left on device'' \<and>
   count_list (calls (fst (run_full_pipeline report_failing_world fresh_manager))) Save = 2"
  by (simp add: sample_defs)

text \<open>
  Claim C4, amended: if the report write in a full-pipeline run raises, the failure is
  appended to \<open>errors\<close> as \<open>Pipeline execution failed: ...\<close>, \<open>success\<close> is set to false, the
  report writer is invoked exactly once more within the same run, and the notifier is not
  invoked.
\<close>

theorem report_failure_recorded_and_writer_called_once_more:
  assumes "report_write w (count_list (calls m) Save) = Some msg"
    and "run_full_pipeline w m = (m', out)"
  shows "errors (results m') =
           errors (results (run_phases w m)) @ [''Pipeline execution failed: '' @ msg] \<and>
         \<not> success (results m') \<and>
         count_list (calls m') Save = count_list (calls m) Save + 2 \<and>
         count_list (calls m') Notify = count_list (calls m) Notify"
proof -
  obtain s1 r1 where s1: "save_results w (run_phases w m) = (s1, r1)"
    by (cases "save_results w (run_phases w m)")
  note f1 = save_results_frame [OF s1]
  have r1: "r1 = Inl (Raised msg)"
    using f1(4) assms(1) by (simp add: run_phases_count_Save)
  show ?thesis
    using assms(2)
  proof (cases rule: run_full_pipeline_cases)
    case (written x)
    with s1 r1 show ?thesis by simp
  next
    case (failed x e s3 r')
    with s1 r1 have x: "x = s1" and e: "e = Raised msg" by simp_all
    note f2 = save_results_frame [OF failed(2)]
    show ?thesis
      by (simp add: failed(3) f2 x e str_exn_def set_success_frame add_error_frame f1
            run_phases_count_Save run_phases_count_Notify)
  qed
qed

theorem report_failure_recorded_and_writer_called_once_more_witness:
  "report_write report_failing_world (count_list (calls fresh_manager) Save)
     = Some ''No space left on device'' \<and>
   errors (results (fst (run_full_pipeline report_failing_world fresh_manager))) =
     [''Pipeline execution failed: No space left on device''] \<and>
   \<not> success (results (fst (run_full_pipeline report_failing_world fresh_manager))) \<and>
   count_list (calls (fst (run_full_pipeline report_failing_world fresh_manager))) Save = 2 \<and>
   count_list (calls (fst (run_full_pipeline report_failing_world fresh_manager))) Notify = 0"
proof -
  have h: "report_write report_failing_world (count_list (calls fresh_manager) Save)
             = Some ''No space left on device''"
    by (simp add: report_failing_world_def calm_world_def fresh_manager_def init_manager_def)
  have p: "run_full_pipeline report_failing_world fresh_manager =
          (fst (run_full_pipeline report_failing_world fresh_manager),
           snd (run_full_pipeline report_failing_world fresh_manager))"
    by simp
  have e: "errors (results (run_phases report_failing_world fresh_manager)) = []"
    by (simp add: sample_defs)
  have c: "calls fresh_manager = []"
    by (simp add: fresh_manager_def init_manager_def)
  from report_failure_recorded_and_writer_called_once_more [OF h p] h e c
  show ?thesis by simp
qed

section \<open>A failing notifier\<close>

text \<open>
  Claim C5: a failure of the notifier, which runs after \<open>success\<close> has been computed,
  appends to \<open>errors\<close> and leaves \<open>success\<close> as it was; hence the \<open>success\<close> value a
  full-pipeline run returns, and the exit status of the process, are the same whatever
  the status push does.
\<close>

theorem notifier_failure_keeps_success_and_exit_status:
  "success (results (notify_completion w m)) = success (results m) \<and>
   prefix (errors (results m)) (errors (results (notify_completion w m))) \<and>
   ((\<forall>out err. notify_proc w \<noteq> Exited 0 (Text out) (Text err)) \<longrightarrow>
      errors (results (notify_completion w m)) \<noteq> errors (results m)) \<and>
   map_sum id success (snd (run_full_pipeline (w\<lparr>notify_proc := p\<rparr>) m)) =
     map_sum id success (snd (run_full_pipeline w m)) \<and>
   main (w\<lparr>notify_proc := p\<rparr>) root config_file a = main w root config_file a"
proof -
  have "main (w\<lparr>notify_proc := p\<rparr>) root config_file a = main w root config_file a"
    by (simp add: main_def phases_ignore_notifier pipeline_success_ignores_notifier
          cong: phase.case_cong)
  moreover have "(\<forall>out err. notify_proc w \<noteq> Exited 0 (Text out) (Text err)) \<longrightarrow>
      errors (results (notify_completion w m)) \<noteq> errors (results m)"
    by (cases "notify_proc w") (auto simp: notify_completion_errors split: captured.splits)
  ultimately show ?thesis
    by (simp add: notify_completion_frame notify_completion_errors
          pipeline_success_ignores_notifier)
qed

theorem notifier_failure_keeps_success_and_exit_status_witness:
  "(\<forall>out err. notify_proc notify_failing_world \<noteq> Exited 0 (Text out) (Text err)) \<and>
   errors (results (notify_completion notify_failing_world fresh_manager))
     \<noteq> errors (results fresh_manager) \<and>
   success (results (notify_completion notify_failing_world fresh_manager))
     = success (results fresh_manager) \<and>
   main calm_world ''/repo'' None full_args = main notify_failing_world ''/repo'' None full_args"
proof -
  have h: "\<forall>out err. notify_proc notify_failing_world \<noteq> Exited 0 (Text out) (Text err)"
    by (simp add: notify_failing_world_def)
  have w: "notify_failing_world\<lparr>notify_proc := Exited 0 (Text []) (Text [])\<rparr> = calm_world"
    by (simp add: notify_failing_world_def calm_world_def)
  from notifier_failure_keeps_success_and_exit_status
         [of notify_failing_world fresh_manager "Exited 0 (Text []) (Text [])" "''/repo''" None full_args] h w
  show ?thesis by simp
qed

section \<open>The built-in family table\<close>

text \<open>
  Claim C8: if the configuration document is absent, or present without a
  \<open>domainFamilies\<close> mapping, the Phase Family Mapping is the built-in table, which has ten
  entries with the keys character, command, wing, squadron, brand, aixtiv, learning,
  flight, commerce and governance.
\<close>

theorem absent_configuration_gives_default_mapping:
  "project_mapping (init_manager project agent root None) = default_project_mapping \<and>
   (domainFamilies cfg = None \<longrightarrow>
      project_mapping (init_manager project agent root (Some cfg)) = default_project_mapping) \<and>
   map fst default_project_mapping =
     [''character'', ''command'', ''wing'', ''squadron'', ''brand'', ''aixtiv'', ''learning'',
      ''flight'', ''commerce'', ''governance''] \<and>
   length default_project_mapping = 10 \<and> distinct (map fst default_project_mapping)"
  by (simp add: init_manager_def empty_config_def default_project_mapping_def)

theorem absent_configuration_gives_default_mapping_witness:
  "domainFamilies (empty_config\<lparr>domainAccountId := Some ''acct''\<rparr>) = None \<and>
   project_mapping (init_manager ''p'' ''a'' ''/repo''
       (Some (empty_config\<lparr>domainAccountId := Some ''acct''\<rparr>))) = default_project_mapping \<and>
   project_mapping fresh_manager = default_project_mapping"
proof -
  have h: "domainFamilies (empty_config\<lparr>domainAccountId := Some ''acct''\<rparr>) = None"
    by (simp add: empty_config_def)
  from absent_configuration_gives_default_mapping
         [of "''api-for-warp-drive''" "''DR_CLAUDE_AUTOMATION''" "''/repo''"]
       absent_configuration_gives_default_mapping
         [of "''p''" "''a''" "''/repo''" "empty_config\<lparr>domainAccountId := Some ''acct''\<rparr>"] h
  show ?thesis by (simp add: fresh_manager_def)
qed

section \<open>Errors recorded for a command that exits non-zero\<close>

text \<open>
  Claim C10, as stated: for every phase whose external command exits with a non-zero
  status, exactly two entries are appended to \<open>errors\<close>. This fails when the captured
  output of the command does not decode: \<open>subprocess.run\<close> then raises before it checks
  the exit status, the executor's handler for \<open>CalledProcessError\<close> is passed by, and only
  the entry of the phase's own handler is appended.
\<close>

theorem undecodable_failed_command_appends_one_error:
  "fetch_proc undecodable_stderr_world =
     Exited 1 (Text []) (Undecodable ''utf-8 codec cannot decode byte 0xff in position 0'') \<and>
   errors (results (fst (fetch_domains undecodable_stderr_world fresh_manager))) =
     [''Domain fetch failed: utf-8 codec cannot decode byte 0xff in position 0'']"
  by (simp add: undecodable_stderr_world_def calm_world_def fresh_manager_def init_manager_def
        fetch_domains_def run_command_def add_error_def log_call_def str_exn_def)

text \<open>
  Claim C10, amended: for every phase whose external command exits with a non-zero status
  and whose captured standard output and standard error decode as text, exactly two
  entries are appended to \<open>errors\<close>: first \<open>Command failed: <stderr>\<close>, appended by the
  command executor before it re-raises, then \<open><phase> failed: ...\<close> with the text of the
  exception, appended by the phase's own handler.
\<close>

theorem failed_decoded_command_appends_two_errors:
  assumes "rc \<noteq> 0"
  shows "(fetch_proc w = Exited rc (Text out) (Text err) \<longrightarrow>
            errors (results (fst (fetch_domains w m))) =
              errors (results m) @ [''Command failed: '' @ err,
                ''Domain fetch failed: '' @ called_process_text w fetch_command rc]) \<and>
         (categorize_proc w = Exited rc (Text out) (Text err) \<longrightarrow>
            errors (results (fst (categorize_domains w m))) =
              errors (results m) @ [''Command failed: '' @ err,
                ''Domain categorization failed: ''
                  @ called_process_text w (categorize_command (root_dir m)) rc]) \<and>
         (assign_proc w = Exited rc (Text out) (Text err) \<longrightarrow>
            errors (results (fst (assign_to_projects w m))) =
              errors (results m) @ [''Command failed: '' @ err,
                ''Domain assignment failed: '' @ called_process_text w assign_command rc]) \<and>
         (verify_proc w = Exited rc (Text out) (Text err) \<longrightarrow>
            errors (results (fst (verify_domains w m))) =
              errors (results m) @ [''Command failed: '' @ err,
                ''Domain verification failed: '' @ called_process_text w verify_command rc])"
  using assms
  by (simp add: fetch_domains_def categorize_domains_def assign_to_projects_def verify_domains_def
        phase_defs str_exn_def)

theorem failed_decoded_command_appends_two_errors_witness:
  "(1::int) \<noteq> 0 \<and>
   fetch_proc failing_world = Exited 1 (Text []) (Text ''boom'') \<and>
   categorize_proc failing_world = Exited 1 (Text []) (Text ''boom'') \<and>
   assign_proc failing_world = Exited 1 (Text []) (Text ''boom'') \<and>
   verify_proc failing_world = Exited 1 (Text []) (Text ''boom'') \<and>
   errors (results (fst (fetch_domains failing_world fresh_manager))) =
     [''Command failed: boom'', ''Domain fetch failed: Command returned non-zero exit status''] \<and>
   errors (results (fst (categorize_domains failing_world fresh_manager))) =
     [''Command failed: boom'', ''Domain categorization failed: Command returned non-zero exit status''] \<and>
   errors (results (fst (assign_to_projects failing_world fresh_manager))) =
     [''Command failed: boom'', ''Domain assignment failed: Command returned non-zero exit status''] \<and>
   errors (results (fst (verify_domains failing_world fresh_manager))) =
     [''Command failed: boom'', ''Domain verification failed: Command returned non-zero exit status'']"
proof -
  have h: "(1::int) \<noteq> 0" by simp
  have p: "fetch_proc failing_world = Exited 1 (Text []) (Text ''boom'')"
    "categorize_proc failing_world = Exited 1 (Text []) (Text ''boom'')"
    "assign_proc failing_world = Exited 1 (Text []) (Text ''boom'')"
    "verify_proc failing_world = Exited 1 (Text []) (Text ''boom'')"
    by (simp_all add: failing_world_def)
  have t: "called_process_text failing_world = (\<lambda>c r. ''Command returned non-zero exit status'')"
    by (simp add: failing_world_def calm_world_def)
  have e: "errors (results fresh_manager) = []"
    by (simp add: fresh_manager_def init_manager_def)
  from failed_decoded_command_appends_two_errors
         [OF h, of failing_world "[]" "''boom''" fresh_manager] p t e
  show ?thesis by simp
qed

section \<open>The Assign-phase parser against its reference description\<close>

lemma header_name_index:
  "contains '':'' line \<Longrightarrow> index_py (split_once '':'' line) 1 = Inr a \<Longrightarrow> strip a = header_name line"
  by (auto simp: contains_def index_py_def split_once_def header_name_def split: option.splits)

lemma header_index_defined:
  "contains '':'' line \<Longrightarrow> \<exists>a. index_py (split_once '':'' line) 1 = Inr a"
  by (auto simp: contains_def index_py_def split_once_def)

lemma dict_append_absent: "k \<notin> set (map fst asg) \<Longrightarrow> dict_append asg k d = asg"
  by (induction asg) (auto simp: dict_append_def)


text \<open>One iteration of the loop, in terms of the named recognisers.\<close>

lemma parse_assignments_step:
  "parse_assignments asg current (line # lines) =
     (if is_project_header line then parse_assignments asg (Some (header_name line)) lines
      else if current \<noteq> None \<and> current \<noteq> Some [] \<and> is_domain_line line
           then parse_assignments (dict_append asg (the current) (line_domain line)) current lines
      else parse_assignments asg current lines)"
proof (cases "is_project_header line")
  case True
  then have c: "contains '':'' line" by (simp add: is_project_header_def)
  from header_index_defined [OF c] obtain a where a: "index_py (split_once '':'' line) 1 = Inr a" ..
  from header_name_index [OF c a] True a show ?thesis
    by (simp add: is_project_header_def)
next
  case False
  then show ?thesis
    by (cases current)
       (auto simp: is_project_header_def is_domain_line_def line_domain_def Let_def dict_append_absent)
qed

lemma parse_assignments_attach:
  "parse_assignments asg current lines = Inr (attach asg (spec_attributions current lines))"
proof (induction lines arbitrary: asg current)
  case Nil
  show ?case by (simp add: attach_def)
next
  case (Cons line lines)
  show ?case
    by (simp only: parse_assignments_step spec_attributions.simps Cons.IH)
       (simp add: attach_def)
qed


lemma map_of_dict_append:
  "map_of (dict_append asg p d) k =
     (if k = p then map_option (\<lambda>v. v @ [d]) (map_of asg k) else map_of asg k)"
  by (induction asg) (auto simp: dict_append_def)

lemma map_of_attach:
  "map_of (attach asg ps) k =
     map_option (\<lambda>v. v @ map snd (filter (\<lambda>(q, d). q = k) ps)) (map_of asg k)"
proof (induction ps arbitrary: asg)
  case Nil
  show ?case by (simp add: attach_def option.map_ident)
next
  case (Cons pd ps)
  obtain p d where pd: "pd = (p, d)" by (cases pd)
  have "attach asg (pd # ps) = attach (dict_append asg p d) ps"
    by (simp add: attach_def pd)
  then show ?case
    by (simp add: Cons.IH map_of_dict_append pd option.map_comp comp_def)
qed



lemma init_assignments_keys:
  "set (map fst (init_assignments asg ps)) = set (map fst asg) \<union> set ps"
  by (induction asg ps rule: init_assignments.induct) auto


lemma init_assignments_empty:
  "\<forall>kv \<in> set asg. snd kv = [] \<Longrightarrow> \<forall>kv \<in> set (init_assignments asg ps). snd kv = []"
  by (induction asg ps rule: init_assignments.induct) auto


lemma map_of_all_empty:
  "\<forall>kv \<in> set asg. snd kv = [] \<Longrightarrow> k \<in> set (map fst asg) \<Longrightarrow> map_of asg k = Some []"
  by (induction asg) auto

text \<open>The Assign phase when its command exits with status 0.\<close>

lemma assign_to_projects_exit_0:
  assumes "assign_proc w = Exited 0 (Text out) (Text err)"
    and "asg = attach (init_assignments [] (map snd (project_mapping m)))
                 (spec_attributions None (splitlines out))"
  shows "assignments (snd (assign_to_projects w m)) = Some asg"
    and "assignments_count (snd (assign_to_projects w m)) = count_assignments asg"
    and "assign_success (snd (assign_to_projects w m))"
    and "domains_assigned (results (fst (assign_to_projects w m))) = count_assignments asg"
    and "errors (results (fst (assign_to_projects w m))) = errors (results m)"
  using assms
  by (simp_all add: assign_to_projects_def phase_defs parse_assignments_attach)

text \<open>Lines of the two forms the specification names: a header line
  \<open>Firebase Project:<name>\<close> names \<open><name>\<close> without surrounding white space, and a line
  \<open>- <domain>\<close> is a domain line with that domain.\<close>

lemma header_line_form:
  "is_project_header (''Firebase Project:'' @ rest) \<and>
   header_name (''Firebase Project:'' @ rest) = strip rest"
  by (simp add: is_project_header_def header_name_def contains_def)

lemma rstrip_keeps_head:
  assumes "\<not> P x"
  shows "\<exists>ys. rev (dropWhile P (rev (x # xs))) = x # ys"
proof (cases "\<forall>y \<in> set xs. P y")
  case True
  have "dropWhile P (rev xs @ [x]) = dropWhile P [x]"
    by (rule dropWhile_append2) (use True in auto)
  with assms show ?thesis by simp
next
  case False
  then obtain y where "y \<in> set (rev xs)" "\<not> P y" by auto
  then have "dropWhile P (rev xs @ [x]) = dropWhile P (rev xs) @ [x]" by (rule dropWhile_append1)
  then show ?thesis by simp
qed

lemma lstrip_rstrip:
  "dropWhile P (rev (dropWhile P (rev xs))) = rev (dropWhile P (rev (dropWhile P xs)))"
proof (cases "\<forall>y \<in> set xs. P y")
  case True
  then have a: "dropWhile P xs = []" and b: "dropWhile P (rev xs) = []" by simp_all
  show ?thesis unfolding a b by simp
next
  case False
  then have ne: "dropWhile P xs \<noteq> []" by simp
  then obtain x L where L: "dropWhile P xs = x # L" by (cases "dropWhile P xs") auto
  then have nx: "\<not> P x" using hd_dropWhile [OF ne] by simp
  have mem: "x \<in> set (rev (dropWhile P xs))" by (simp add: L)
  have d: "dropWhile P (rev (dropWhile P xs) @ rev (takeWhile P xs)) =
      dropWhile P (rev (dropWhile P xs)) @ rev (takeWhile P xs)"
    using mem nx by (rule dropWhile_append1)
  have "rev xs = rev (dropWhile P xs) @ rev (takeWhile P xs)"
    by (metis rev_append takeWhile_dropWhile_id)
  with d have "rev (dropWhile P (rev xs)) =
      takeWhile P xs @ rev (dropWhile P (rev (dropWhile P xs)))"
    by simp
  moreover have "\<forall>y \<in> set (takeWhile P xs). P y" by (auto dest: set_takeWhileD)
  ultimately have "dropWhile P (rev (dropWhile P (rev xs))) =
      dropWhile P (rev (dropWhile P (rev (dropWhile P xs))))"
    by (simp add: dropWhile_append2)
  moreover from rstrip_keeps_head [of P x L] nx
  obtain ys where "rev (dropWhile P (rev (dropWhile P xs))) = x # ys" by (auto simp: L)
  ultimately show ?thesis using nx by simp
qed

lemma strip_rstrip: "strip (rev (dropWhile isspace (rev d))) = strip d"
  by (simp add: strip_def lstrip_rstrip dropWhile_idem)

lemma domain_line_form:
  "is_domain_line (''- '' @ d) \<and> line_domain (''- '' @ d) = strip d"
proof (cases "\<forall>c \<in> set d. isspace c")
  case True
  have "dropWhile isspace (rev d @ '' -'') = dropWhile isspace '' -''"
    by (rule dropWhile_append2) (use True in auto)
  then have s: "strip (''- '' @ d) = ''-''" by (simp add: strip_def isspace_def)
  from True have a: "dropWhile isspace d = []" by simp
  have "strip d = []" unfolding strip_def a by simp
  with s show ?thesis
    by (simp add: is_domain_line_def line_domain_def startswith_def) (simp add: strip_def)
next
  case False
  then obtain c where "c \<in> set (rev d)" "\<not> isspace c" by auto
  then have "dropWhile isspace (rev d @ '' -'') = dropWhile isspace (rev d) @ '' -''"
    by (rule dropWhile_append1)
  then have s: "strip (CHR ''-'' # CHR '' '' # d) =
      CHR ''-'' # CHR '' '' # rev (dropWhile isspace (rev d))"
    by (simp add: strip_def isspace_def)
  show ?thesis
    by (simp add: is_domain_line_def line_domain_def startswith_def s strip_rstrip)
qed


lemma sample_assign_attributions:
  "spec_attributions None sample_assign_lines =
     [(''proj-a'', ''x.com''), (''proj-a'', ''y.com''), (''proj-b'', ''z.com'')]"
  by (simp add: sample_assign_lines_def is_project_header_def header_name_def is_domain_line_def
        line_domain_def contains_def startswith_def strip_def isspace_def)

lemma sample_assign_splitlines: "splitlines sample_assign_output = sample_assign_lines"
  by (simp add: sample_assign_output_def sample_assign_lines_def splitlines_def is_linebreak_def)

lemma stray_header_splitlines: "splitlines stray_header_output = stray_header_lines"
  by (simp add: stray_header_output_def stray_header_lines_def splitlines_def is_linebreak_def)

lemma stray_header_attributions:
  "spec_attributions None stray_header_lines =
     [(''proj-a'', ''x.com''), (''Firebase Project list continues'', ''y.com'')]"
  by (simp add: stray_header_lines_def is_project_header_def header_name_def is_domain_line_def
        line_domain_def contains_def startswith_def strip_def isspace_def)


lemma two_project_mapping:
  "map snd (project_mapping two_project_manager) = [''proj-a'', ''proj-b'']"
  by (simp add: two_project_manager_def init_manager_def empty_config_def mapping_from_config_def)

section \<open>Assignment of domains to projects\<close>

text \<open>
  Claim C1, as stated: the parser associates each \<open>- <domain>\<close> line with the most
  recently seen \<open>Firebase Project: <name>\<close> header, and for the sample lines the returned
  map is \<open>{proj-a: [x.com, y.com], proj-b: [z.com]}\<close>. This fails in two ways. For a
  manager built without a configuration document the map has the six projects of the
  built-in table as keys, all with empty lists, and no key \<open>proj-a\<close>. And with \<open>proj-a\<close>
  and \<open>proj-b\<close> mapped, a line that merely contains \<open>Firebase Project\<close> and a colon is
  taken as a header, so a domain line after it is lost to \<open>proj-a\<close>.
\<close>

theorem sample_assignments_lost_under_default_mapping:
  "splitlines sample_assign_output =
     [''Firebase Project: proj-a'', ''- x.com'', ''- y.com'', ''Firebase Project: proj-b'', ''- z.com''] \<and>
   assignments (snd (assign_to_projects sample_assign_world fresh_manager)) =
     Some [(''api-for-warp-drive'', []), (''coaching2100-com'', []), (''aixtiv-symphony'', []),
           (''academy2100-com'', []), (''flight-school'', []), (''giftshop2100-com'', [])] \<and>
   splitlines stray_header_output =
     [''Firebase Project: proj-a'', ''- x.com'', ''note: Firebase Project list continues'',
      ''- y.com''] \<and>
   assignments (snd (assign_to_projects stray_header_world two_project_manager)) =
     Some [(''proj-a'', [''x.com'']), (''proj-b'', [])]"
proof -
  have "attach (init_assignments [] (map snd (project_mapping fresh_manager)))
          (spec_attributions None (splitlines sample_assign_output)) =
        [(''api-for-warp-drive'', []), (''coaching2100-com'', []), (''aixtiv-symphony'', []),
         (''academy2100-com'', []), (''flight-school'', []), (''giftshop2100-com'', [])]"
    by (simp add: sample_assign_splitlines sample_assign_attributions fresh_manager_def
          init_manager_def empty_config_def default_project_mapping_def attach_def dict_append_def)
  moreover have "assign_proc sample_assign_world = Exited 0 (Text sample_assign_output) (Text [])"
    by (simp add: sample_assign_world_def)
  ultimately have first:
    "assignments (snd (assign_to_projects sample_assign_world fresh_manager)) =
     Some [(''api-for-warp-drive'', []), (''coaching2100-com'', []), (''aixtiv-symphony'', []),
           (''academy2100-com'', []), (''flight-school'', []), (''giftshop2100-com'', [])]"
    by (simp add: assign_to_projects_exit_0(1))
  have "attach (init_assignments [] (map snd (project_mapping two_project_manager)))
          (spec_attributions None (splitlines stray_header_output)) =
        [(''proj-a'', [''x.com'']), (''proj-b'', [])]"
    by (simp add: stray_header_splitlines stray_header_attributions two_project_mapping
          attach_def dict_append_def)
  moreover have "assign_proc stray_header_world = Exited 0 (Text stray_header_output) (Text [])"
    by (simp add: stray_header_world_def)
  ultimately have second:
    "assignments (snd (assign_to_projects stray_header_world two_project_manager)) =
     Some [(''proj-a'', [''x.com'']), (''proj-b'', [])]"
    by (simp add: assign_to_projects_exit_0(1))
  from first second show ?thesis
    using sample_assign_splitlines stray_header_splitlines
    by (simp add: sample_assign_lines_def stray_header_lines_def)
qed

text \<open>
  Claim C1, amended: take as a header line every line that contains \<open>Firebase Project\<close>
  and a colon, naming the text after the line's first colon without surrounding white
  space (so \<open>Firebase Project: <name>\<close> names \<open><name>\<close>), and as a domain line every
  other line whose text without surrounding white space starts with \<open>-\<close>, its domain
  being that text without its first two characters and without surrounding white space
  (so \<open>- <domain>\<close> has the domain \<open><domain>\<close>). When the organize command exits with
  status 0 and its captured output decodes as text, the returned map holds, for every
  project identifier that is a value of the Phase Family Mapping, the domains of the
  domain lines whose most recently seen header line names that identifier, in order (a
  header line with an empty name attributes nothing); in particular, for the sample
  lines and a mapping whose project identifiers are exactly \<open>proj-a\<close> and \<open>proj-b\<close>, the
  returned map is \<open>{proj-a: [x.com, y.com], proj-b: [z.com]}\<close>.
\<close>

theorem assign_groups_domains_of_mapped_projects:
  assumes "assign_proc w = Exited 0 (Text out) (Text err)"
  shows "(\<exists>asg. assignments (snd (assign_to_projects w m)) = Some asg \<and>
           (\<forall>p \<in> set (map snd (project_mapping m)).
              map_of asg p =
                Some (map snd (filter (\<lambda>(q, d). q = p) (spec_attributions None (splitlines out))))) \<and>
           (splitlines out = sample_assign_lines \<and>
            set (map snd (project_mapping m)) = {''proj-a'', ''proj-b''} \<longrightarrow>
              map_of asg = [''proj-a'' \<mapsto> [''x.com'', ''y.com''], ''proj-b'' \<mapsto> [''z.com'']])) \<and>
         is_project_header (''Firebase Project:'' @ name) \<and>
         header_name (''Firebase Project:'' @ name) = strip name \<and>
         is_domain_line (''- '' @ domain) \<and>
         line_domain (''- '' @ domain) = strip domain"
proof -
  let ?init = "init_assignments [] (map snd (project_mapping m))"
  let ?attrs = "spec_attributions None (splitlines out)"
  let ?asg = "attach ?init ?attrs"
  have keys: "set (map fst ?init) = set (map snd (project_mapping m))"
    using init_assignments_keys [of "[]" "map snd (project_mapping m)"] by simp
  have empty: "\<forall>kv \<in> set ?init. snd kv = []"
    by (rule init_assignments_empty) simp
  have known: "map_of ?asg p = Some (map snd (filter (\<lambda>(q, d). q = p) ?attrs))"
    if "p \<in> set (map snd (project_mapping m))" for p
  proof -
    from that keys have "p \<in> set (map fst ?init)" by simp
    with empty have "map_of ?init p = Some []" by (rule map_of_all_empty)
    then show ?thesis by (simp add: map_of_attach)
  qed
  have unknown: "map_of ?asg p = None" if "p \<notin> set (map snd (project_mapping m))" for p
  proof -
    from that keys have "p \<notin> set (map fst ?init)" by simp
    then have "map_of ?init p = None" by (simp add: map_of_eq_None_iff)
    then show ?thesis by (simp add: map_of_attach)
  qed
  have sample: "map_of ?asg = [''proj-a'' \<mapsto> [''x.com'', ''y.com''], ''proj-b'' \<mapsto> [''z.com'']]"
    if l: "splitlines out = sample_assign_lines"
      and v: "set (map snd (project_mapping m)) = {''proj-a'', ''proj-b''}"
  proof (rule ext)
    fix k
    show "map_of ?asg k = [''proj-a'' \<mapsto> [''x.com'', ''y.com''], ''proj-b'' \<mapsto> [''z.com'']] k"
    proof (cases "k \<in> {''proj-a'', ''proj-b''}")
      case True
      with v have "k \<in> set (map snd (project_mapping m))" by simp
      from known [OF this] True show ?thesis
        by (auto simp: l sample_assign_attributions)
    next
      case False
      with v have "k \<notin> set (map snd (project_mapping m))" by simp
      from unknown [OF this] False show ?thesis by simp
    qed
  qed
  have "assignments (snd (assign_to_projects w m)) = Some ?asg"
    using assms by (rule assign_to_projects_exit_0(1)) simp
  with known sample
  have "\<exists>asg. assignments (snd (assign_to_projects w m)) = Some asg \<and>
           (\<forall>p \<in> set (map snd (project_mapping m)).
              map_of asg p =
                Some (map snd (filter (\<lambda>(q, d). q = p) (spec_attributions None (splitlines out))))) \<and>
           (splitlines out = sample_assign_lines \<and>
            set (map snd (project_mapping m)) = {''proj-a'', ''proj-b''} \<longrightarrow>
              map_of asg = [''proj-a'' \<mapsto> [''x.com'', ''y.com''], ''proj-b'' \<mapsto> [''z.com'']])"
    by blast
  with header_line_form [of name] domain_line_form [of domain] show ?thesis
    by blast
qed

theorem assign_groups_domains_of_mapped_projects_witness:
  "assign_proc sample_assign_world = Exited 0 (Text sample_assign_output) (Text []) \<and>
   splitlines sample_assign_output = sample_assign_lines \<and>
   set (map snd (project_mapping two_project_manager)) = {''proj-a'', ''proj-b''} \<and>
   map_option map_of (assignments (snd (assign_to_projects sample_assign_world two_project_manager))) =
     Some [''proj-a'' \<mapsto> [''x.com'', ''y.com''], ''proj-b'' \<mapsto> [''z.com'']]"
proof -
  have h: "assign_proc sample_assign_world = Exited 0 (Text sample_assign_output) (Text [])"
    by (simp add: sample_assign_world_def)
  have v: "set (map snd (project_mapping two_project_manager)) = {''proj-a'', ''proj-b''}"
    by (simp add: two_project_mapping)
  from assign_groups_domains_of_mapped_projects
         [OF h, where m = two_project_manager and name = "'' proj-a''" and domain = "''x.com''",
          THEN conjunct1]
    h v sample_assign_splitlines
  show ?thesis by auto
qed





section \<open>The Verify-phase parser against its reference description\<close>

lemma split_py_cut:
  "sep \<noteq> [] \<Longrightarrow> find_sub sep s = Some (b, a) \<Longrightarrow> split_py sep s = b # split_py sep a"
  by (subst split_py.simps) simp

lemma split_py_whole: "find_sub sep s = None \<Longrightarrow> split_py sep s = [s]"
  by (subst split_py.simps) simp

lemma split_py_hd:
  "sep \<noteq> [] \<Longrightarrow> hd (split_py sep s) = (case find_sub sep s of None \<Rightarrow> s | Some (b, a) \<Rightarrow> b)"
  by (cases "find_sub sep s") (auto simp: split_py_cut split_py_whole)

lemma split_py_not_Nil: "split_py sep s \<noteq> []"
  by (subst split_py.simps) (simp split: option.splits)

lemma tagged_domain_spec:
  assumes "contains '' - '' line" and "tag \<noteq> []"
  shows "tagged_domain tag line =
           (case spec_domain tag line of
              None \<Rightarrow> Inl (Raised ''list index out of range'')
            | Some d \<Rightarrow> Inr d)"
proof -
  from assms(1) obtain head_part rest where cut: "find_sub '' - '' line = Some (head_part, rest)"
    by (auto simp: contains_def)
  then have "index_py (split_py '' - '' line) 0 = Inr head_part"
    by (simp add: split_py_cut index_py_def)
  then have td: "tagged_domain tag line =
      (case index_py (split_py tag head_part) 1 of Inl e \<Rightarrow> Inl e | Inr d \<Rightarrow> Inr (strip d))"
    by (simp add: tagged_domain_def)
  show ?thesis
  proof (cases "find_sub tag head_part")
    case None
    then show ?thesis
      by (simp add: td split_py_whole index_py_def spec_domain_def cut)
  next
    case (Some ba)
    obtain b after where ba: "ba = (b, after)" by (cases ba)
    have "split_py tag head_part = b # split_py tag after"
      using assms(2) Some ba by (simp add: split_py_cut)
    moreover obtain x xs where "split_py tag after = x # xs"
      using split_py_not_Nil [of tag after] by (cases "split_py tag after") auto
    ultimately have "index_py (split_py tag head_part) 1 = Inr (hd (split_py tag after))"
      by (simp add: index_py_def)
    then show ?thesis
      using assms(2) Some ba
      by (simp add: td spec_domain_def cut split_py_hd split: option.splits)
  qed
qed

text \<open>One iteration of the loop, in terms of the reference description.\<close>

lemma parse_verification_step:
  "parse_verification verified failed (line # lines) =
     (if is_success_line line then
        (case spec_domain ''[SUCCESS]'' line of
           None \<Rightarrow> Inl (Raised ''list index out of range'')
         | Some d \<Rightarrow> parse_verification (verified @ [d]) failed lines)
      else if is_failed_line line then
        (case spec_domain ''[FAILED]'' line of
           None \<Rightarrow> Inl (Raised ''list index out of range'')
         | Some d \<Rightarrow> parse_verification verified (failed @ [d]) lines)
      else parse_verification verified failed lines)"
  by (auto simp: is_success_line_def is_failed_line_def tagged_domain_spec split: option.splits)

lemma parse_verification_well_formed:
  assumes "\<forall>line \<in> set lines.
             (is_success_line line \<longrightarrow> spec_domain ''[SUCCESS]'' line \<noteq> None) \<and>
             (is_failed_line line \<longrightarrow> spec_domain ''[FAILED]'' line \<noteq> None)"
  shows "parse_verification verified failed lines =
           Inr (verified @ map (the \<circ> spec_domain ''[SUCCESS]'') (filter is_success_line lines),
                failed @ map (the \<circ> spec_domain ''[FAILED]'') (filter is_failed_line lines))"
  using assms
proof (induction lines arbitrary: verified failed)
  case Nil
  show ?case by simp
next
  case (Cons line lines)
  then have rest: "\<forall>line \<in> set lines.
             (is_success_line line \<longrightarrow> spec_domain ''[SUCCESS]'' line \<noteq> None) \<and>
             (is_failed_line line \<longrightarrow> spec_domain ''[FAILED]'' line \<noteq> None)"
    and here: "is_success_line line \<longrightarrow> spec_domain ''[SUCCESS]'' line \<noteq> None"
      "is_failed_line line \<longrightarrow> spec_domain ''[FAILED]'' line \<noteq> None"
    by simp_all
  have disjoint: "is_failed_line line \<longrightarrow> \<not> is_success_line line"
    by (simp add: is_failed_line_def)
  show ?case
    using here disjoint
    by (simp only: parse_verification_step Cons.IH [OF rest])
       (auto split: option.splits)
qed

lemma verify_domains_exit_0:
  assumes "verify_proc w = Exited 0 (Text out) (Text err)"
    and "parse_verification [] [] (splitlines out) = Inr (verified, failed)"
  shows "verified_domains (snd (verify_domains w m)) = Some verified"
    and "failed_domains (snd (verify_domains w m)) = Some failed"
    and "verified_count (snd (verify_domains w m)) = int (length verified)"
    and "domains_verified (results (fst (verify_domains w m))) = int (length verified)"
    and "verify_success (snd (verify_domains w m))"
    and "errors (results (fst (verify_domains w m))) = errors (results m)"
  using assms
  by (simp_all add: verify_domains_def phase_defs)

lemma sample_verify_splitlines: "splitlines sample_verify_output = sample_verify_lines"
  by (simp add: sample_verify_output_def sample_verify_lines_def splitlines_def is_linebreak_def)

lemma sample_verify_lines_facts:
  "is_success_line ''[SUCCESS] x.com - ok''"
  "\<not> is_success_line ''[FAILED] y.com - timeout''"
  "is_failed_line ''[FAILED] y.com - timeout''"
  "\<not> is_failed_line ''[SUCCESS] x.com - ok''"
  "spec_domain ''[SUCCESS]'' ''[SUCCESS] x.com - ok'' = Some ''x.com''"
  "spec_domain ''[FAILED]'' ''[FAILED] y.com - timeout'' = Some ''y.com''"
  by (simp_all add: is_success_line_def is_failed_line_def spec_domain_def contains_def
        strip_def isspace_def)

text \<open>A line that the first branch takes although its tag comes after the first
  delimiter: \<open>split(tag)[1]\<close> raises, and the phase ends as failed.\<close>

lemma late_tag_raises_index_error:
  "contains ''[SUCCESS]'' late_tag_line \<and> contains '' - '' late_tag_line \<and>
   \<not> verify_success (snd (verify_domains late_tag_world fresh_manager)) \<and>
   verified_domains (snd (verify_domains late_tag_world fresh_manager)) = None \<and>
   errors (results (fst (verify_domains late_tag_world fresh_manager))) =
     [''Domain verification failed: list index out of range'']"
proof -
  have l: "splitlines late_tag_line = [late_tag_line]"
    by (simp add: late_tag_line_def splitlines_def is_linebreak_def)
  have s: "is_success_line late_tag_line" "spec_domain ''[SUCCESS]'' late_tag_line = None"
    by (simp_all add: late_tag_line_def is_success_line_def spec_domain_def contains_def)
  have p: "parse_verification [] [] (splitlines late_tag_line) =
             Inl (Raised ''list index out of range'')"
    by (simp only: l parse_verification_step s) simp
  have c: "contains ''[SUCCESS]'' late_tag_line" "contains '' - '' late_tag_line"
    by (simp_all add: late_tag_line_def contains_def)
  have v: "verify_proc late_tag_world = Exited 0 (Text late_tag_line) (Text [])"
    by (simp add: late_tag_world_def)
  have e: "errors (results fresh_manager) = []"
    by (simp add: fresh_manager_def init_manager_def)
  from c v p e show ?thesis
    by (simp add: verify_domains_def phase_defs str_exn_def)
qed

text \<open>A line with the tag twice before the delimiter: the domain ends at the second
  tag.\<close>

lemma repeated_tag_line_domain:
  "spec_domain ''[SUCCESS]'' ''[SUCCESS] c.com [SUCCESS] d.com - ok'' = Some ''c.com'' \<and>
   parse_verification [] [] [''[SUCCESS] c.com [SUCCESS] d.com - ok''] = Inr ([''c.com''], [])"
proof -
  have d: "spec_domain ''[SUCCESS]'' ''[SUCCESS] c.com [SUCCESS] d.com - ok'' = Some ''c.com''"
    by (simp add: spec_domain_def strip_def isspace_def)
  have s: "is_success_line ''[SUCCESS] c.com [SUCCESS] d.com - ok''"
    by (simp add: is_success_line_def contains_def)
  show ?thesis
    by (simp only: parse_verification_step s d) simp
qed

section \<open>Verification results\<close>

text \<open>
  Claim C6, as stated: the parser puts into \<open>verified_domains\<close> the domain of every line
  containing \<open>[SUCCESS]\<close> and the delimiter, and into \<open>failed_domains\<close> the domain of every
  line containing \<open>[FAILED]\<close> and the delimiter. The second half fails: a line that
  contains \<open>[FAILED]\<close>, the delimiter and also \<open>[SUCCESS]\<close> is taken by the first branch
  only, so nothing of it reaches \<open>failed_domains\<close>.
\<close>

theorem failed_line_with_success_tag_not_in_failed_domains:
  "contains ''[FAILED]'' mixed_verify_line \<and> contains '' - '' mixed_verify_line \<and>
   splitlines mixed_verify_line = [mixed_verify_line] \<and>
   verified_domains (snd (verify_domains mixed_verify_world fresh_manager)) = Some [[]] \<and>
   failed_domains (snd (verify_domains mixed_verify_world fresh_manager)) = Some []"
proof -
  have l: "splitlines mixed_verify_line = [mixed_verify_line]"
    by (simp add: mixed_verify_line_def splitlines_def is_linebreak_def)
  have s: "is_success_line mixed_verify_line"
    "spec_domain ''[SUCCESS]'' mixed_verify_line = Some []"
    by (simp_all add: mixed_verify_line_def is_success_line_def spec_domain_def contains_def
          strip_def isspace_def)
  have p: "parse_verification [] [] (splitlines mixed_verify_line) = Inr ([[]], [])"
    by (simp only: l parse_verification_step s) simp
  have c: "contains ''[FAILED]'' mixed_verify_line" "contains '' - '' mixed_verify_line"
    by (simp_all add: mixed_verify_line_def contains_def)
  have v: "verify_proc mixed_verify_world = Exited 0 (Text mixed_verify_line) (Text [])"
    by (simp add: mixed_verify_world_def)
  from verify_domains_exit_0(1,2) [OF v p] c l show ?thesis by simp
qed

text \<open>
  Claim C6, amended: when the verification command exits with status 0, its captured
  output decodes as text and, in every line the parser takes, the tag occurs before the
  first delimiter, \<open>verified_domains\<close> holds the domain of every line containing
  \<open>[SUCCESS]\<close> and the delimiter, and \<open>failed_domains\<close> the domain of every line
  containing \<open>[FAILED]\<close> and the delimiter but not \<open>[SUCCESS]\<close>, both in the order of the
  lines; the domain of a line is the text that follows the first occurrence of the tag
  and ends at the next occurrence of the same tag or, when there is none before the
  first delimiter, at the first delimiter, without surrounding white space. In
  particular the sample lines give \<open>verified_domains = [x.com]\<close> and
  \<open>failed_domains = [y.com]\<close>.
\<close>

theorem verify_parser_collects_tagged_domains:
  assumes "verify_proc w = Exited 0 (Text out) (Text err)"
    and "\<forall>line \<in> set (splitlines out).
           (is_success_line line \<longrightarrow> spec_domain ''[SUCCESS]'' line \<noteq> None) \<and>
           (is_failed_line line \<longrightarrow> spec_domain ''[FAILED]'' line \<noteq> None)"
  shows "verified_domains (snd (verify_domains w m)) =
           Some (map (the \<circ> spec_domain ''[SUCCESS]'') (filter is_success_line (splitlines out))) \<and>
         failed_domains (snd (verify_domains w m)) =
           Some (map (the \<circ> spec_domain ''[FAILED]'') (filter is_failed_line (splitlines out))) \<and>
         domains_verified (results (fst (verify_domains w m))) =
           int (length (filter is_success_line (splitlines out))) \<and>
         (splitlines out = sample_verify_lines \<longrightarrow>
            verified_domains (snd (verify_domains w m)) = Some [''x.com''] \<and>
            failed_domains (snd (verify_domains w m)) = Some [''y.com''])"
proof -
  have p: "parse_verification [] [] (splitlines out) =
      Inr (map (the \<circ> spec_domain ''[SUCCESS]'') (filter is_success_line (splitlines out)),
           map (the \<circ> spec_domain ''[FAILED]'') (filter is_failed_line (splitlines out)))"
    using parse_verification_well_formed [OF assms(2), of "[]" "[]"] by simp
  note ok = verify_domains_exit_0 [OF assms(1) p, of m]
  show ?thesis
    by (simp add: ok(1,2,4) sample_verify_lines_def sample_verify_lines_facts)
qed

theorem verify_parser_collects_tagged_domains_witness:
  "verify_proc sample_verify_world = Exited 0 (Text sample_verify_output) (Text []) \<and>
   splitlines sample_verify_output = [''[SUCCESS] x.com - ok'', ''[FAILED] y.com - timeout''] \<and>
   is_success_line ''[SUCCESS] x.com - ok'' \<and>
   spec_domain ''[SUCCESS]'' ''[SUCCESS] x.com - ok'' = Some ''x.com'' \<and>
   is_failed_line ''[FAILED] y.com - timeout'' \<and>
   spec_domain ''[FAILED]'' ''[FAILED] y.com - timeout'' = Some ''y.com'' \<and>
   verified_domains (snd (verify_domains sample_verify_world fresh_manager)) = Some [''x.com''] \<and>
   failed_domains (snd (verify_domains sample_verify_world fresh_manager)) = Some [''y.com''] \<and>
   domains_verified (results (fst (verify_domains sample_verify_world fresh_manager))) = 1"
proof -
  have h: "verify_proc sample_verify_world = Exited 0 (Text sample_verify_output) (Text [])"
    by (simp add: sample_verify_world_def)
  have wf: "\<forall>line \<in> set (splitlines sample_verify_output).
      (is_success_line line \<longrightarrow> spec_domain ''[SUCCESS]'' line \<noteq> None) \<and>
      (is_failed_line line \<longrightarrow> spec_domain ''[FAILED]'' line \<noteq> None)"
    by (simp add: sample_verify_splitlines sample_verify_lines_def sample_verify_lines_facts)
  from verify_parser_collects_tagged_domains [OF h wf, of fresh_manager] h
  show ?thesis
    by (simp add: sample_verify_splitlines sample_verify_lines_def sample_verify_lines_facts)
qed

end
